theory Spec2Isabelle
  imports Complex_Main
begin

section \<open>Errors and results\<close>

text \<open>
  The exceptions that the Python code and the tensor library raise. A computation that
  may raise returns \<open>error + 'a\<close>, with \<open>Inl\<close> for the exception.
\<close>

datatype error =
    AttributeError
  | TypeError
  | ValueError
  | IndexError
  | RuntimeError
  | AssertionError
  | ZeroDivisionError
  | OverflowError

definition bnd :: "error + 'a \<Rightarrow> ('a \<Rightarrow> error + 'b) \<Rightarrow> error + 'b" where
  "bnd m f = (case m of Inl e \<Rightarrow> Inl e | Inr v \<Rightarrow> f v)"

section \<open>Tensors\<close>

text \<open>
  A tensor is its shape together with its entries, read at a multi-index. Only the
  entries at indices inside the shape are meaningful. Floating-point entries are
  idealised as reals, integer (long) entries are \<open>int\<close>, boolean entries \<open>bool\<close>.
\<close>

record 'a tensor =
  shape :: "nat list"
  elem :: "nat list \<Rightarrow> 'a"

definition numel :: "'a tensor \<Rightarrow> nat" where
  "numel t = prod_list (shape t)"

text \<open>\<open>a, b = t.shape[:2]\<close>: unpacking raises ValueError below rank 2.\<close>

definition shape2 :: "'a tensor \<Rightarrow> error + nat \<times> nat" where
  "shape2 t = (case shape t of a # b # _ \<Rightarrow> Inr (a, b) | _ \<Rightarrow> Inl ValueError)"

text \<open>
  \<open>t == c\<close> for a tensor of 64-bit integers (dtype long) and a Python value. A Python
  integer is converted to a 64-bit scalar first: one in \<open>[-2^63, 2^63)\<close> as it is, one in
  \<open>[2^63, 2^64)\<close> as an unsigned scalar that the comparison reads as the signed integer
  with the same bits, and any other raises OverflowError. The comparison is then
  elementwise. Against \<open>None\<close> the comparison yields the Python bool \<open>False\<close>, on which
  the next tensor method (\<open>unsqueeze\<close>) raises AttributeError; the model raises at once.
\<close>

definition wrap64 :: "int \<Rightarrow> int" where
  "wrap64 v = (v + 9223372036854775808) mod 18446744073709551616 - 9223372036854775808"

definition eq_scalar :: "int tensor \<Rightarrow> int option \<Rightarrow> error + bool tensor" where
  "eq_scalar t c = (case c of
      None \<Rightarrow> Inl AttributeError
    | Some p \<Rightarrow>
        if p < - 9223372036854775808 \<or> 18446744073709551616 \<le> p then Inl OverflowError
        else Inr \<lparr>shape = shape t, elem = (\<lambda>idx. elem t idx = wrap64 p)\<rparr>)"

text \<open>\<open>t.unsqueeze(d)\<close> for \<open>d \<ge> 0\<close>: a new axis of size 1 at position \<open>d\<close>.\<close>

definition unsqueeze :: "nat \<Rightarrow> 'a tensor \<Rightarrow> error + 'a tensor" where
  "unsqueeze d t =
     (if d \<le> length (shape t)
      then Inr \<lparr>shape = take d (shape t) @ [1] @ drop d (shape t),
                elem = (\<lambda>idx. elem t (take d idx @ drop (Suc d) idx))\<rparr>
      else Inl IndexError)"

text \<open>
  \<open>t.expand(*sizes)\<close> with non-negative sizes: each trailing size equals the tensor's
  size on that axis, or the tensor's size there is 1; new leading axes are allowed.
\<close>

definition expand :: "nat list \<Rightarrow> 'a tensor \<Rightarrow> error + 'a tensor" where
  "expand sizes t =
     (let sh = shape t; k = length sizes - length sh in
      if length sizes < length sh then Inl RuntimeError
      else if list_all2 (\<lambda>s d. d = s \<or> d = 1) (drop k sizes) sh
      then Inr \<lparr>shape = sizes,
                elem = (\<lambda>idx. elem t (map2 (\<lambda>i d. if d = 1 then 0 else i) (drop k idx) sh))\<rparr>
      else Inl RuntimeError)"

text \<open>\<open>torch.ones(sh)\<close>, \<open>torch.triu(t, k)\<close> on the last two axes, and \<open>t.bool()\<close>.\<close>

definition ones :: "nat list \<Rightarrow> real tensor" where
  "ones sh = \<lparr>shape = sh, elem = (\<lambda>_. 1)\<rparr>"

definition triu :: "int \<Rightarrow> real tensor \<Rightarrow> error + real tensor" where
  "triu k t =
     (if length (shape t) < 2 then Inl RuntimeError
      else Inr \<lparr>shape = shape t,
                elem = (\<lambda>idx. let r = length idx; i = idx ! (r - 2); j = idx ! (r - 1)
                              in if k \<le> int j - int i then elem t idx else 0)\<rparr>)"

definition to_bool :: "real tensor \<Rightarrow> bool tensor" where
  "to_bool t = \<lparr>shape = shape t, elem = (\<lambda>idx. elem t idx \<noteq> 0)\<rparr>"

text \<open>
  Broadcasting of two shapes: the shorter is padded with leading 1s; two sizes are
  compatible when they are equal or one of them is 1. \<open>bidx s idx\<close> is the index into an
  operand of shape \<open>s\<close> that the result index \<open>idx\<close> reads.
\<close>

definition broadcast_shapes :: "nat list \<Rightarrow> nat list \<Rightarrow> error + nat list" where
  "broadcast_shapes s1 s2 =
     (let r = max (length s1) (length s2);
          p1 = replicate (r - length s1) 1 @ s1;
          p2 = replicate (r - length s2) 1 @ s2
      in if list_all2 (\<lambda>a b. a = b \<or> a = 1 \<or> b = 1) p1 p2
         then Inr (map2 (\<lambda>a b. if a = 1 then b else a) p1 p2)
         else Inl RuntimeError)"

definition bidx :: "nat list \<Rightarrow> nat list \<Rightarrow> nat list" where
  "bidx s idx = map2 (\<lambda>i d. if d = 1 then 0 else i) (drop (length idx - length s) idx) s"

definition binop :: "('a \<Rightarrow> 'b \<Rightarrow> 'c) \<Rightarrow> 'a tensor \<Rightarrow> 'b tensor \<Rightarrow> error + 'c tensor" where
  "binop f a b =
     bnd (broadcast_shapes (shape a) (shape b)) (\<lambda>sh.
     Inr \<lparr>shape = sh, elem = (\<lambda>idx. f (elem a (bidx (shape a) idx)) (elem b (bidx (shape b) idx)))\<rparr>)"

definition pointwise :: "('a \<Rightarrow> 'b) \<Rightarrow> 'a tensor \<Rightarrow> 'b tensor" where
  "pointwise f t = \<lparr>shape = shape t, elem = (\<lambda>idx. f (elem t idx))\<rparr>"

text \<open>\<open>energy.masked_fill(mask, v)\<close>: out of place, the tensor and the mask broadcast together.\<close>

definition masked_fill :: "real tensor \<Rightarrow> bool tensor \<Rightarrow> real \<Rightarrow> error + real tensor" where
  "masked_fill t msk v = binop (\<lambda>x m. if m then v else x) t msk"

text \<open>
  Row-major positions. \<open>ravel sh idx\<close> is the position of index \<open>idx\<close> in a contiguous
  tensor of shape \<open>sh\<close>, \<open>unravel sh k\<close> the index at position \<open>k\<close>.
\<close>

fun ravel :: "nat list \<Rightarrow> nat list \<Rightarrow> nat" where
  "ravel (n # sh) (i # idx) = i * prod_list sh + ravel sh idx"
| "ravel _ _ = 0"

fun unravel :: "nat list \<Rightarrow> nat \<Rightarrow> nat list" where
  "unravel [] k = []"
| "unravel (n # sh) k = (k div prod_list sh) # unravel sh (k mod prod_list sh)"

text \<open>
  The size inference of \<open>view\<close>: a size below \<open>-1\<close> is invalid, at most one size may be
  \<open>-1\<close>, the sizes must account for the number of elements, and a \<open>-1\<close> beside a zero
  size is ambiguous. Every failure is a RuntimeError.
\<close>

definition infer_size :: "int list \<Rightarrow> nat \<Rightarrow> error + nat list" where
  "infer_size sizes n =
     (if (\<exists>d\<in>set sizes. d < - 1) then Inl RuntimeError
      else if 1 < count_list sizes (- 1) then Inl RuntimeError
      else let newsize = prod_list (map nat (filter (\<lambda>d. 0 \<le> d) sizes)) in
        if - 1 \<in> set sizes
        then (if n = newsize \<or> (0 < newsize \<and> n mod newsize = 0)
              then (if newsize = 0 then Inl RuntimeError
                    else Inr (map (\<lambda>d. if d = - 1 then n div newsize else nat d) sizes))
              else Inl RuntimeError)
        else if n = newsize then Inr (map nat sizes) else Inl RuntimeError)"

text \<open>
  \<open>t.view(*sizes)\<close> of a contiguous tensor (every tensor viewed below is the output of a
  linear layer or of \<open>contiguous()\<close>): the same elements in row-major order.
\<close>

definition view :: "int list \<Rightarrow> 'a tensor \<Rightarrow> error + 'a tensor" where
  "view sizes t =
     bnd (infer_size sizes (numel t)) (\<lambda>sh.
     Inr \<lparr>shape = sh, elem = (\<lambda>idx. elem t (unravel (shape t) (ravel sh idx)))\<rparr>)"

text \<open>\<open>t.permute(*dims)\<close>: axis \<open>k\<close> of the result is axis \<open>dims[k]\<close> of \<open>t\<close>.\<close>

fun index_of :: "nat \<Rightarrow> nat list \<Rightarrow> nat" where
  "index_of a [] = 0"
| "index_of a (x # xs) = (if x = a then 0 else Suc (index_of a xs))"

definition permute :: "nat list \<Rightarrow> 'a tensor \<Rightarrow> error + 'a tensor" where
  "permute dims t =
     (let r = length (shape t) in
      if length dims = r \<and> distinct dims \<and> (\<forall>d\<in>set dims. d < r)
      then Inr \<lparr>shape = map (\<lambda>d. shape t ! d) dims,
                elem = (\<lambda>idx. elem t (map (\<lambda>m. idx ! index_of m dims) [0..<r]))\<rparr>
      else Inl RuntimeError)"

text \<open>
  \<open>a @ b\<close> for two tensors of the same rank, at least 2, with the same leading (batch)
  axes: the only case that arises below, where both operands come from views with the
  same sizes. Mismatching inner sizes raise a RuntimeError.
\<close>

definition matmul :: "real tensor \<Rightarrow> real tensor \<Rightarrow> error + real tensor" where
  "matmul a b =
     (let sa = shape a; sb = shape b; r = length sa in
      if r < 2 \<or> length sb \<noteq> r \<or> take (r - 2) sa \<noteq> take (r - 2) sb
         \<or> sa ! (r - 1) \<noteq> sb ! (r - 2)
      then Inl RuntimeError
      else Inr \<lparr>shape = take (r - 1) sa @ [sb ! (r - 1)],
                elem = (\<lambda>idx. let pre = take (r - 2) idx; i = idx ! (r - 2); j = idx ! (r - 1)
                              in (\<Sum>k\<leftarrow>[0..<sa ! (r - 1)].
                                     elem a (pre @ [i, k]) * elem b (pre @ [k, j])))\<rparr>)"

text \<open>\<open>t.repeat(*reps)\<close>: at least as many repeats as axes, none negative.\<close>

definition repeat :: "int list \<Rightarrow> 'a tensor \<Rightarrow> error + 'a tensor" where
  "repeat reps t =
     (let sh = shape t; k = length reps - length sh; psh = replicate k 1 @ sh in
      if length reps < length sh \<or> (\<exists>r\<in>set reps. r < 0) then Inl RuntimeError
      else Inr \<lparr>shape = map2 (\<lambda>r d. nat r * d) reps psh,
                elem = (\<lambda>idx. elem t (drop k (map2 (\<lambda>i d. i mod d) idx psh)))\<rparr>)"

text \<open>\<open>torch.softmax(t, dim=-1)\<close>.\<close>

definition softmax :: "real tensor \<Rightarrow> real tensor" where
  "softmax t =
     (case rev (shape t) of
        [] \<Rightarrow> \<lparr>shape = [], elem = (\<lambda>_. 1)\<rparr>
      | n # _ \<Rightarrow> \<lparr>shape = shape t,
                  elem = (\<lambda>idx. exp (elem t idx)
                                / (\<Sum>k\<leftarrow>[0..<n]. exp (elem t (butlast idx @ [k]))))\<rparr>)"

section \<open>Library modules\<close>

text \<open>
  \<open>nn.Linear(in_features, out_features)\<close>. The constructor allocates the weight, which
  fails for a negative size. The initial weight and bias are parameters of the model.
  The layer acts on the last axis.
\<close>

record linear =
  in_features :: nat
  out_features :: nat
  weight :: "nat \<Rightarrow> nat \<Rightarrow> real"
  bias :: "nat \<Rightarrow> real"

type_synonym linear_params = "(nat \<Rightarrow> nat \<Rightarrow> real) \<times> (nat \<Rightarrow> real)"

definition Linear_init :: "int \<Rightarrow> int \<Rightarrow> linear_params \<Rightarrow> error + linear" where
  "Linear_init n_in n_out p =
     (if n_in < 0 \<or> n_out < 0 then Inl RuntimeError
      else Inr \<lparr>in_features = nat n_in, out_features = nat n_out,
                weight = fst p, bias = snd p\<rparr>)"

text \<open>Component \<open>c\<close> of the image \<open>W x + b\<close> of a vector \<open>x\<close> under the layer.\<close>

definition linear_image :: "linear \<Rightarrow> (nat \<Rightarrow> real) \<Rightarrow> nat \<Rightarrow> real" where
  "linear_image l x c = (\<Sum>i\<leftarrow>[0..<in_features l]. x i * weight l c i) + bias l c"

definition Linear_forward :: "linear \<Rightarrow> real tensor \<Rightarrow> error + real tensor" where
  "Linear_forward l x =
     (case rev (shape x) of
        [] \<Rightarrow> Inl RuntimeError
      | d # _ \<Rightarrow>
          if d \<noteq> in_features l then Inl RuntimeError
          else Inr \<lparr>shape = butlast (shape x) @ [out_features l],
                    elem = (\<lambda>idx. linear_image l (\<lambda>i. elem x (butlast idx @ [i])) (last idx))\<rparr>)"

text \<open>
  \<open>nn.Dropout(p)\<close>. The constructor rejects a probability outside \<open>[0, 1]\<close>. With
  \<open>p = 0\<close> the layer is the identity. Otherwise it zeroes the entries that its random
  draw drops and rescales the others; the draw \<open>keep\<close> is a parameter of the model.
\<close>

record dropout =
  drop_p :: real
  keep :: "nat list \<Rightarrow> bool"

definition Dropout_init :: "real \<Rightarrow> (nat list \<Rightarrow> bool) \<Rightarrow> error + dropout" where
  "Dropout_init p k =
     (if p < 0 \<or> 1 < p then Inl ValueError else Inr \<lparr>drop_p = p, keep = k\<rparr>)"

definition Dropout_forward :: "dropout \<Rightarrow> real tensor \<Rightarrow> real tensor" where
  "Dropout_forward d t =
     (if drop_p d = 0 then t
      else \<lparr>shape = shape t,
            elem = (\<lambda>idx. if keep d idx \<and> drop_p d \<noteq> 1
                          then elem t idx / (1 - drop_p d) else 0)\<rparr>)"

text \<open>Python's \<open>%\<close> and \<open>//\<close> on integers: floor division, ZeroDivisionError on 0.\<close>

definition py_mod :: "int \<Rightarrow> int \<Rightarrow> error + int" where
  "py_mod a b = (if b = 0 then Inl ZeroDivisionError else Inr (a mod b))"

definition py_floordiv :: "int \<Rightarrow> int \<Rightarrow> error + int" where
  "py_floordiv a b = (if b = 0 then Inl ZeroDivisionError else Inr (a div b))"

section \<open>Multi-head attention\<close>

record mha =
  mha_hid_dim :: int
  mha_n_heads :: int
  mha_head_dim :: int
  fc_q :: linear
  fc_k :: linear
  fc_v :: linear
  fc_o :: linear
  mha_dropout :: dropout
  mha_scale :: real

text \<open>The initial values of the layer's parameters and the draw of its dropout.\<close>

record mha_params =
  p_q :: linear_params
  p_k :: linear_params
  p_v :: linear_params
  p_o :: linear_params
  p_keep :: "nat list \<Rightarrow> bool"

text \<open>\<open>MultiHeadAttentionLayer.__init__(hid_dim, n_heads, dropout)\<close>.\<close>

definition MultiHeadAttentionLayer_init ::
    "int \<Rightarrow> int \<Rightarrow> real \<Rightarrow> mha_params \<Rightarrow> error + mha" where
  "MultiHeadAttentionLayer_init hid_dim n_heads dropout ps =
     bnd (py_mod hid_dim n_heads) (\<lambda>r.
     if r \<noteq> 0 then Inl AssertionError else
     bnd (py_floordiv hid_dim n_heads) (\<lambda>head_dim.
     bnd (Linear_init hid_dim hid_dim (p_q ps)) (\<lambda>lq.
     bnd (Linear_init hid_dim hid_dim (p_k ps)) (\<lambda>lk.
     bnd (Linear_init hid_dim hid_dim (p_v ps)) (\<lambda>lv.
     bnd (Linear_init hid_dim hid_dim (p_o ps)) (\<lambda>lo.
     bnd (Dropout_init dropout (p_keep ps)) (\<lambda>d.
     Inr \<lparr>mha_hid_dim = hid_dim, mha_n_heads = n_heads, mha_head_dim = head_dim,
          fc_q = lq, fc_k = lk, fc_v = lv, fc_o = lo, mha_dropout = d,
          mha_scale = sqrt (real_of_int head_dim)\<rparr>)))))))"

text \<open>\<open>MultiHeadAttentionLayer.forward(query, key, value, mask)\<close>.\<close>

definition apply_mask :: "mha \<Rightarrow> real tensor \<Rightarrow> bool tensor option \<Rightarrow> error + real tensor" where
  "apply_mask self energy msk =
     (case msk of
        None \<Rightarrow> Inr energy
      | Some m \<Rightarrow>
          bnd (unsqueeze 1 m) (\<lambda>m1.
          bnd (repeat [1, mha_n_heads self, 1, 1] m1) (\<lambda>m2.
          masked_fill energy m2 (- 100000000))))"

definition MultiHeadAttentionLayer_forward ::
    "mha \<Rightarrow> real tensor \<Rightarrow> real tensor \<Rightarrow> real tensor \<Rightarrow> bool tensor option
       \<Rightarrow> error + real tensor" where
  "MultiHeadAttentionLayer_forward self query key val msk =
     bnd (shape2 query) (\<lambda>(bs, seq_len).
     bnd (Linear_forward (fc_q self) query) (\<lambda>q0.
     bnd (Linear_forward (fc_k self) key) (\<lambda>k0.
     bnd (Linear_forward (fc_v self) val) (\<lambda>v0.
     let sizes = [int bs, int seq_len, mha_n_heads self, mha_head_dim self] in
     bnd (bnd (view sizes q0) (permute [0, 2, 1, 3])) (\<lambda>q.
     bnd (bnd (view sizes k0) (permute [0, 2, 3, 1])) (\<lambda>k.
     bnd (bnd (view sizes v0) (permute [0, 2, 1, 3])) (\<lambda>v.
     bnd (matmul q k) (\<lambda>qk.
     bnd (apply_mask self (pointwise (\<lambda>e. e / mha_scale self) qk) msk) (\<lambda>energy.
     let attention = Dropout_forward (mha_dropout self) (softmax energy) in
     bnd (matmul attention v) (\<lambda>x1.
     bnd (permute [0, 2, 1, 3] x1) (\<lambda>x2.
     bnd (view [int bs, - 1, mha_hid_dim self] x2) (\<lambda>x3.
     Linear_forward (fc_o self) x3))))))))))))"

text \<open>
  The attention as the specification words it, head by head: the energy of query position \<open>i\<close> against key
  position \<open>j\<close> in head \<open>h\<close> is the scaled product of the head's slices of the projected
  query and key, or \<open>-1e8\<close> where the mask is set; the attention weights are the softmax
  of the energies over \<open>j\<close>; the head's output is the weighted sum of its slice of the
  projected values; the heads are concatenated and mapped through \<open>fc_o\<close>.
\<close>

definition head_energy ::
    "mha \<Rightarrow> real tensor \<Rightarrow> real tensor \<Rightarrow> bool tensor option \<Rightarrow> nat \<Rightarrow> nat \<Rightarrow> nat \<Rightarrow> nat \<Rightarrow> real" where
  "head_energy self query key msk b h i j =
     (let dh = nat (mha_head_dim self);
          e = (\<Sum>d\<leftarrow>[0..<dh]. linear_image (fc_q self) (\<lambda>m. elem query [b, i, m]) (h * dh + d)
                              * linear_image (fc_k self) (\<lambda>m. elem key [b, j, m]) (h * dh + d))
              / sqrt (real dh)
      in case msk of None \<Rightarrow> e | Some m \<Rightarrow> if elem m [b, i, j] then - 100000000 else e)"

definition head_attention ::
    "mha \<Rightarrow> real tensor \<Rightarrow> real tensor \<Rightarrow> bool tensor option \<Rightarrow> nat
       \<Rightarrow> nat \<Rightarrow> nat \<Rightarrow> nat \<Rightarrow> nat \<Rightarrow> real" where
  "head_attention self query key msk seq_len b h i j =
     exp (head_energy self query key msk b h i j)
       / (\<Sum>t\<leftarrow>[0..<seq_len]. exp (head_energy self query key msk b h i t))"

definition head_output ::
    "mha \<Rightarrow> real tensor \<Rightarrow> real tensor \<Rightarrow> real tensor \<Rightarrow> bool tensor option \<Rightarrow> nat
       \<Rightarrow> nat \<Rightarrow> nat \<Rightarrow> nat \<Rightarrow> nat \<Rightarrow> real" where
  "head_output self query key val msk seq_len b h i d =
     (\<Sum>j\<leftarrow>[0..<seq_len]. head_attention self query key msk seq_len b h i j
         * linear_image (fc_v self) (\<lambda>m. elem val [b, j, m]) (h * nat (mha_head_dim self) + d))"

definition attention_spec ::
    "mha \<Rightarrow> real tensor \<Rightarrow> real tensor \<Rightarrow> real tensor \<Rightarrow> bool tensor option \<Rightarrow> nat
       \<Rightarrow> nat \<Rightarrow> nat \<Rightarrow> nat \<Rightarrow> real" where
  "attention_spec self query key val msk seq_len b i c =
     linear_image (fc_o self)
       (\<lambda>m. head_output self query key val msk seq_len b
               (m div nat (mha_head_dim self)) i (m mod nat (mha_head_dim self))) c"

text \<open>Parameters that are zero everywhere, for concrete instances.\<close>

definition zero_linear :: linear_params where
  "zero_linear = (\<lambda>_ _. 0, \<lambda>_. 0)"

definition zero_params :: mha_params where
  "zero_params = \<lparr>p_q = zero_linear, p_k = zero_linear, p_v = zero_linear,
                   p_o = zero_linear, p_keep = (\<lambda>_. True)\<rparr>"

section \<open>Masks\<close>

text \<open>\<open>get_pad_mask(query, key, pad_index)\<close>; \<open>.to(device)\<close> does not change a tensor.\<close>

definition get_pad_mask :: "'q tensor \<Rightarrow> int tensor \<Rightarrow> int option \<Rightarrow> error + bool tensor" where
  "get_pad_mask query key pad_index =
     bnd (shape2 query) (\<lambda>(bs, seq_len_q).
     bnd (shape2 key) (\<lambda>(bs, seq_len_k).
     bnd (eq_scalar key pad_index) (\<lambda>eq.
     bnd (unsqueeze 1 eq) (\<lambda>pad_mask.
     expand [bs, seq_len_q, seq_len_k] pad_mask))))"

text \<open>\<open>get_autoregressive_mask(seq)\<close>.\<close>

definition get_autoregressive_mask :: "'q tensor \<Rightarrow> error + bool tensor" where
  "get_autoregressive_mask seq =
     bnd (shape2 seq) (\<lambda>(bs, seq_len).
     bnd (triu 1 (ones [bs, seq_len, seq_len])) (\<lambda>autoregressive_mask.
     Inr (to_bool autoregressive_mask)))"

section \<open>More tensor operations\<close>

text \<open>\<open>torch.zeros(sh)\<close>, \<open>torch.arange(n)\<close>, \<open>t.long()\<close> and \<open>torch.relu(t)\<close>.\<close>

definition zeros :: "nat list \<Rightarrow> real tensor" where
  "zeros sh = \<lparr>shape = sh, elem = (\<lambda>_. 0)\<rparr>"

definition arange :: "nat \<Rightarrow> int tensor" where
  "arange n = \<lparr>shape = [n], elem = (\<lambda>idx. int (idx ! 0))\<rparr>"

definition real_to_long :: "real tensor \<Rightarrow> int tensor" where
  "real_to_long = pointwise (\<lambda>v. if 0 \<le> v then \<lfloor>v\<rfloor> else \<lceil>v\<rceil>)"

definition bool_to_long :: "bool tensor \<Rightarrow> int tensor" where
  "bool_to_long = pointwise (\<lambda>b. if b then 1 else 0)"

definition relu :: "real tensor \<Rightarrow> real tensor" where
  "relu = pointwise (max 0)"

text \<open>\<open>t.all(dim=-1)\<close> for a tensor with at least one axis.\<close>

definition all_last :: "bool tensor \<Rightarrow> bool tensor" where
  "all_last t = \<lparr>shape = butlast (shape t),
                 elem = (\<lambda>idx. list_all (\<lambda>k. elem t (idx @ [k])) [0..<last (shape t)])\<rparr>"

text \<open>
  \<open>torch.cat([a, b], dim=1)\<close>: both tensors have the same rank, at least 2, and the same
  sizes off axis 1. (The first tensor has rank 2 or more at every call below.)
\<close>

definition cat1 :: "'a tensor \<Rightarrow> 'a tensor \<Rightarrow> error + 'a tensor" where
  "cat1 a b =
     (let sa = shape a; sb = shape b in
      if length sa < 2 then Inl IndexError
      else if length sb \<noteq> length sa \<or> sa[1 := 0] \<noteq> sb[1 := 0] then Inl RuntimeError
      else Inr \<lparr>shape = sa[1 := sa ! 1 + sb ! 1],
                elem = (\<lambda>idx. if idx ! 1 < sa ! 1 then elem a idx
                              else elem b (idx[1 := idx ! 1 - sa ! 1]))\<rparr>)"

text \<open>\<open>a, b = t.shape[1:3]\<close>: unpacking raises ValueError below rank 3.\<close>

definition shape13 :: "'a tensor \<Rightarrow> error + nat \<times> nat" where
  "shape13 t = (case shape t of _ # a # b # _ \<Rightarrow> Inr (a, b) | _ \<Rightarrow> Inl ValueError)"

text \<open>Running a list of fallible steps, stopping at the first error.\<close>

fun map_res :: "('a \<Rightarrow> error + 'b) \<Rightarrow> 'a list \<Rightarrow> error + 'b list" where
  "map_res f [] = Inr []"
| "map_res f (x # xs) =
     (case f x of Inl e \<Rightarrow> Inl e
      | Inr y \<Rightarrow> (case map_res f xs of Inl e \<Rightarrow> Inl e | Inr ys \<Rightarrow> Inr (y # ys)))"

fun fold_res :: "('b \<Rightarrow> 'a \<Rightarrow> error + 'b) \<Rightarrow> 'b \<Rightarrow> 'a list \<Rightarrow> error + 'b" where
  "fold_res f acc [] = Inr acc"
| "fold_res f acc (x # xs) =
     (case f acc x of Inl e \<Rightarrow> Inl e | Inr acc' \<Rightarrow> fold_res f acc' xs)"

section \<open>Embedding and layer normalisation\<close>

text \<open>
  \<open>nn.Embedding(num_embeddings, embedding_dim)\<close>: a lookup of rows of the weight; an
  index outside \<open>[0, num_embeddings)\<close> raises IndexError. The constructor allocates the
  weight, whose sizes must be non-negative and fit a signed 64-bit integer.
\<close>

record embedding =
  num_embeddings :: nat
  embedding_dim :: nat
  emb_weight :: "nat \<Rightarrow> nat \<Rightarrow> real"

definition Embedding_init :: "int \<Rightarrow> int \<Rightarrow> (nat \<Rightarrow> nat \<Rightarrow> real) \<Rightarrow> error + embedding" where
  "Embedding_init n d w =
     (if n < 0 \<or> d < 0 \<or> 9223372036854775808 \<le> n \<or> 9223372036854775808 \<le> d
      then Inl RuntimeError
      else Inr \<lparr>num_embeddings = nat n, embedding_dim = nat d, emb_weight = w\<rparr>)"

fun all_indices :: "nat list \<Rightarrow> nat list list" where
  "all_indices [] = [[]]"
| "all_indices (n # sh) = concat (map (\<lambda>i. map ((#) i) (all_indices sh)) [0..<n])"

definition Embedding_forward :: "embedding \<Rightarrow> int tensor \<Rightarrow> error + real tensor" where
  "Embedding_forward e x =
     (if list_all (\<lambda>idx. 0 \<le> elem x idx \<and> elem x idx < int (num_embeddings e))
           (all_indices (shape x))
      then Inr \<lparr>shape = shape x @ [embedding_dim e],
                elem = (\<lambda>idx. emb_weight e (nat (elem x (butlast idx))) (last idx))\<rparr>
      else Inl IndexError)"

text \<open>\<open>nn.LayerNorm(hid_dim)\<close>, over the last axis.\<close>

record layer_norm =
  ln_dim :: nat
  ln_weight :: "nat \<Rightarrow> real"
  ln_bias :: "nat \<Rightarrow> real"

type_synonym ln_params = "(nat \<Rightarrow> real) \<times> (nat \<Rightarrow> real)"

definition LayerNorm_init :: "int \<Rightarrow> ln_params \<Rightarrow> error + layer_norm" where
  "LayerNorm_init n p =
     (if n < 0 then Inl RuntimeError
      else Inr \<lparr>ln_dim = nat n, ln_weight = fst p, ln_bias = snd p\<rparr>)"

definition LayerNorm_forward :: "layer_norm \<Rightarrow> real tensor \<Rightarrow> error + real tensor" where
  "LayerNorm_forward self x =
     (case rev (shape x) of
        [] \<Rightarrow> Inl RuntimeError
      | d # _ \<Rightarrow>
          if d \<noteq> ln_dim self then Inl RuntimeError
          else Inr \<lparr>shape = shape x,
                 elem = (\<lambda>idx.
                   let row = map (\<lambda>k. elem x (butlast idx @ [k])) [0..<d];
                       mean = sum_list row / real d;
                       var = (\<Sum>v\<leftarrow>row. (v - mean)\<^sup>2) / real d
                   in (elem x idx - mean) / sqrt (var + 1 / 100000) * ln_weight self (last idx)
                        + ln_bias self (last idx))\<rparr>)"

section \<open>Position-wise feed-forward layer\<close>

record pf =
  fc_1 :: linear
  fc_2 :: linear
  pf_dropout :: dropout

record pf_params =
  p_1 :: linear_params
  p_2 :: linear_params
  p_pf_keep :: "nat list \<Rightarrow> bool"

text \<open>\<open>PositionwiseFeedforwardLayer.__init__(hid_dim, pf_dim, dropout)\<close>.\<close>

definition PositionwiseFeedforwardLayer_init ::
    "int \<Rightarrow> int \<Rightarrow> real \<Rightarrow> pf_params \<Rightarrow> error + pf" where
  "PositionwiseFeedforwardLayer_init hid_dim pf_dim dropout ps =
     bnd (Linear_init hid_dim pf_dim (p_1 ps)) (\<lambda>l1.
     bnd (Linear_init pf_dim hid_dim (p_2 ps)) (\<lambda>l2.
     bnd (Dropout_init dropout (p_pf_keep ps)) (\<lambda>d.
     Inr \<lparr>fc_1 = l1, fc_2 = l2, pf_dropout = d\<rparr>)))"

text \<open>\<open>PositionwiseFeedforwardLayer.forward(x)\<close>.\<close>

definition PositionwiseFeedforwardLayer_forward :: "pf \<Rightarrow> real tensor \<Rightarrow> error + real tensor" where
  "PositionwiseFeedforwardLayer_forward self x =
     bnd (Linear_forward (fc_1 self) x) (\<lambda>h.
     let x1 = Dropout_forward (pf_dropout self) (relu h) in
     Linear_forward (fc_2 self) x1)"

section \<open>Encoder and decoder layers\<close>

record encoder_layer =
  el_self_attn :: mha
  el_self_attn_ln :: layer_norm
  el_pf :: pf
  el_pf_ln :: layer_norm
  el_dropout :: dropout

record encoder_layer_params =
  ep_self_attn :: mha_params
  ep_self_attn_ln :: ln_params
  ep_pf :: pf_params
  ep_pf_ln :: ln_params
  ep_keep :: "nat list \<Rightarrow> bool"

text \<open>\<open>EncoderLayer.__init__(hid_dim, n_heads, pf_dim, dropout)\<close>.\<close>

definition EncoderLayer_init ::
    "int \<Rightarrow> int \<Rightarrow> int \<Rightarrow> real \<Rightarrow> encoder_layer_params \<Rightarrow> error + encoder_layer" where
  "EncoderLayer_init hid_dim n_heads pf_dim dropout ps =
     bnd (MultiHeadAttentionLayer_init hid_dim n_heads dropout (ep_self_attn ps)) (\<lambda>a.
     bnd (LayerNorm_init hid_dim (ep_self_attn_ln ps)) (\<lambda>aln.
     bnd (PositionwiseFeedforwardLayer_init hid_dim pf_dim dropout (ep_pf ps)) (\<lambda>f.
     bnd (LayerNorm_init hid_dim (ep_pf_ln ps)) (\<lambda>fln.
     bnd (Dropout_init dropout (ep_keep ps)) (\<lambda>d.
     Inr \<lparr>el_self_attn = a, el_self_attn_ln = aln, el_pf = f, el_pf_ln = fln,
          el_dropout = d\<rparr>)))))"

text \<open>\<open>EncoderLayer.forward(x, input_mask)\<close>.\<close>

definition EncoderLayer_forward ::
    "encoder_layer \<Rightarrow> real tensor \<Rightarrow> bool tensor option \<Rightarrow> error + real tensor" where
  "EncoderLayer_forward self x input_mask =
     bnd (MultiHeadAttentionLayer_forward (el_self_attn self) x x x input_mask) (\<lambda>a.
     let attn_out = Dropout_forward (el_dropout self) a in
     bnd (binop (+) x attn_out) (\<lambda>s1.
     bnd (LayerNorm_forward (el_self_attn_ln self) s1) (\<lambda>x1.
     bnd (PositionwiseFeedforwardLayer_forward (el_pf self) x1) (\<lambda>f.
     let ff_out = Dropout_forward (el_dropout self) f in
     bnd (binop (+) x1 ff_out) (\<lambda>s2.
     LayerNorm_forward (el_pf_ln self) s2)))))"

record decoder_layer =
  dl_self_attn :: mha
  dl_self_attn_ln :: layer_norm
  dl_enc_attn :: mha
  dl_enc_attn_ln :: layer_norm
  dl_pf :: pf
  dl_pf_ln :: layer_norm
  dl_dropout :: dropout

record decoder_layer_params =
  dp_self_attn :: mha_params
  dp_self_attn_ln :: ln_params
  dp_enc_attn :: mha_params
  dp_enc_attn_ln :: ln_params
  dp_pf :: pf_params
  dp_pf_ln :: ln_params
  dp_keep :: "nat list \<Rightarrow> bool"

text \<open>\<open>DecoderLayer.__init__(hid_dim, n_heads, pf_dim, dropout)\<close>.\<close>

definition DecoderLayer_init ::
    "int \<Rightarrow> int \<Rightarrow> int \<Rightarrow> real \<Rightarrow> decoder_layer_params \<Rightarrow> error + decoder_layer" where
  "DecoderLayer_init hid_dim n_heads pf_dim dropout ps =
     bnd (MultiHeadAttentionLayer_init hid_dim n_heads dropout (dp_self_attn ps)) (\<lambda>a.
     bnd (LayerNorm_init hid_dim (dp_self_attn_ln ps)) (\<lambda>aln.
     bnd (MultiHeadAttentionLayer_init hid_dim n_heads dropout (dp_enc_attn ps)) (\<lambda>e.
     bnd (LayerNorm_init hid_dim (dp_enc_attn_ln ps)) (\<lambda>eln.
     bnd (PositionwiseFeedforwardLayer_init hid_dim pf_dim dropout (dp_pf ps)) (\<lambda>f.
     bnd (LayerNorm_init hid_dim (dp_pf_ln ps)) (\<lambda>fln.
     bnd (Dropout_init dropout (dp_keep ps)) (\<lambda>d.
     Inr \<lparr>dl_self_attn = a, dl_self_attn_ln = aln, dl_enc_attn = e, dl_enc_attn_ln = eln,
          dl_pf = f, dl_pf_ln = fln, dl_dropout = d\<rparr>)))))))"

text \<open>\<open>DecoderLayer.forward(x, enc_out, input_mask, enc_mask)\<close>.\<close>

definition DecoderLayer_forward ::
    "decoder_layer \<Rightarrow> real tensor \<Rightarrow> real tensor \<Rightarrow> bool tensor option \<Rightarrow> bool tensor option
       \<Rightarrow> error + real tensor" where
  "DecoderLayer_forward self x enc_out input_mask enc_mask =
     bnd (MultiHeadAttentionLayer_forward (dl_self_attn self) x x x input_mask) (\<lambda>a.
     let attn_out = Dropout_forward (dl_dropout self) a in
     bnd (binop (+) x attn_out) (\<lambda>s1.
     bnd (LayerNorm_forward (dl_self_attn_ln self) s1) (\<lambda>x1.
     bnd (MultiHeadAttentionLayer_forward (dl_enc_attn self) x1 enc_out enc_out enc_mask) (\<lambda>a2.
     let attn_out2 = Dropout_forward (dl_dropout self) a2 in
     bnd (binop (+) x1 attn_out2) (\<lambda>s2.
     bnd (LayerNorm_forward (dl_enc_attn_ln self) s2) (\<lambda>x2.
     bnd (PositionwiseFeedforwardLayer_forward (dl_pf self) x2) (\<lambda>f.
     let ff_out = Dropout_forward (dl_dropout self) f in
     bnd (binop (+) x2 ff_out) (\<lambda>s3.
     LayerNorm_forward (dl_pf_ln self) s3))))))))"

section \<open>Python values and instance attributes\<close>

text \<open>
  The values that the attributes of the two transformer classes hold, and that their
  methods pass around. Looking up a name that \<open>__init__\<close> did not set raises
  AttributeError; the names looked up below that are not set (\<open>padding_index\<close>,
  \<open>embedding\<close>, \<open>lstm\<close>, \<open>linear\<close>) are defined neither by the classes nor by
  \<open>nn.Module\<close>.
\<close>

datatype pyobj =
    PyNone
  | PyInt int
  | PyFloat real
  | PyLongTensor "int tensor"
  | PyTensor "real tensor"
  | PyTuple "pyobj list"
  | PyEmbedding embedding
  | PyLinear linear
  | PyDropout dropout
  | PyEncoderLayers "encoder_layer list"
  | PyDecoderLayers "decoder_layer list"

text \<open>Calling a value: the modules are callable on a tensor of their input type.\<close>

definition py_call :: "pyobj \<Rightarrow> pyobj list \<Rightarrow> error + pyobj" where
  "py_call f args =
     (case (f, args) of
        (PyEmbedding e, [PyLongTensor t]) \<Rightarrow> bnd (Embedding_forward e t) (\<lambda>r. Inr (PyTensor r))
      | (PyLinear l, [PyTensor t]) \<Rightarrow> bnd (Linear_forward l t) (\<lambda>r. Inr (PyTensor r))
      | (PyDropout d, [PyTensor t]) \<Rightarrow> Inr (PyTensor (Dropout_forward d t))
      | _ \<Rightarrow> Inl TypeError)"

text \<open>\<open>a, b = v\<close> and \<open>v.squeeze(1)\<close> on a Python value.\<close>

definition py_unpack2 :: "pyobj \<Rightarrow> error + pyobj \<times> pyobj" where
  "py_unpack2 v = (case v of PyTuple [a, b] \<Rightarrow> Inr (a, b) | PyTuple _ \<Rightarrow> Inl ValueError
                   | _ \<Rightarrow> Inl TypeError)"

definition squeeze1 :: "'a tensor \<Rightarrow> error + 'a tensor" where
  "squeeze1 t =
     (if length (shape t) < 2 then Inl IndexError
      else if shape t ! 1 = 1
      then Inr \<lparr>shape = take 1 (shape t) @ drop 2 (shape t),
                elem = (\<lambda>idx. elem t (take 1 idx @ [0] @ drop 1 idx))\<rparr>
      else Inr t)"

definition py_squeeze1 :: "pyobj \<Rightarrow> error + pyobj" where
  "py_squeeze1 v =
     (case v of
        PyTensor t \<Rightarrow> bnd (squeeze1 t) (\<lambda>r. Inr (PyTensor r))
      | PyLongTensor t \<Rightarrow> bnd (squeeze1 t) (\<lambda>r. Inr (PyLongTensor r))
      | _ \<Rightarrow> Inl AttributeError)"

section \<open>Transformer encoder\<close>

record transformer_encoder =
  te_pad_index :: "int option"
  te_tok_embedding :: embedding
  te_pos_embedding :: embedding
  te_dropout :: dropout
  te_layers :: "encoder_layer list"
  te_scale :: real

text \<open>
  The values of the parameters after \<open>init_weights\<close> (which redraws every weight matrix)
  and the draws of the dropouts.
\<close>

record transformer_encoder_params =
  tep_tok :: "nat \<Rightarrow> nat \<Rightarrow> real"
  tep_pos :: "nat \<Rightarrow> nat \<Rightarrow> real"
  tep_keep :: "nat list \<Rightarrow> bool"
  tep_layers :: "nat \<Rightarrow> encoder_layer_params"

text \<open>
  \<open>TransformerEncoder.__init__(num_tokens, hid_dim, n_layers, n_heads, pf_dim, dropout,
  pad_index, max_len)\<close>.
\<close>

definition TransformerEncoder_init ::
    "int \<Rightarrow> int \<Rightarrow> int \<Rightarrow> int \<Rightarrow> int \<Rightarrow> real \<Rightarrow> int option \<Rightarrow> int
       \<Rightarrow> transformer_encoder_params \<Rightarrow> error + transformer_encoder" where
  "TransformerEncoder_init num_tokens hid_dim n_layers n_heads pf_dim dropout pad_index max_len ps =
     bnd (Embedding_init num_tokens hid_dim (tep_tok ps)) (\<lambda>tok.
     bnd (Embedding_init max_len hid_dim (tep_pos ps)) (\<lambda>pos.
     bnd (Dropout_init dropout (tep_keep ps)) (\<lambda>d.
     bnd (map_res (\<lambda>i. EncoderLayer_init hid_dim n_heads pf_dim dropout (tep_layers ps i))
            [0..<nat n_layers]) (\<lambda>layers.
     Inr \<lparr>te_pad_index = pad_index, te_tok_embedding = tok, te_pos_embedding = pos,
          te_dropout = d, te_layers = layers, te_scale = sqrt (real_of_int hid_dim)\<rparr>))))"

text \<open>The attributes that \<open>__init__\<close> sets on the instance.\<close>

definition TransformerEncoder_attr :: "transformer_encoder \<Rightarrow> string \<Rightarrow> error + pyobj" where
  "TransformerEncoder_attr self name =
     (if name = ''pad_index''
      then Inr (case te_pad_index self of None \<Rightarrow> PyNone | Some p \<Rightarrow> PyInt p)
      else if name = ''tok_embedding'' then Inr (PyEmbedding (te_tok_embedding self))
      else if name = ''pos_embedding'' then Inr (PyEmbedding (te_pos_embedding self))
      else if name = ''dropout'' then Inr (PyDropout (te_dropout self))
      else if name = ''layers'' then Inr (PyEncoderLayers (te_layers self))
      else if name = ''scale'' then Inr (PyFloat (te_scale self))
      else Inl AttributeError)"

text \<open>
  \<open>TransformerEncoder.forward(x)\<close>. The attributes set by \<open>__init__\<close> are read from the
  record; the condition of the padding mask reads \<open>self.padding_index\<close>.
\<close>

definition TransformerEncoder_forward ::
    "transformer_encoder \<Rightarrow> int tensor \<Rightarrow> error + real tensor" where
  "TransformerEncoder_forward self x =
     bnd (shape2 x) (\<lambda>(bs, seq_len).
     bnd (Embedding_forward (te_tok_embedding self) x) (\<lambda>e.
     let tok_emb = pointwise (\<lambda>v. v / te_scale self) e in
     bnd (repeat [int bs, 1] (arange seq_len)) (\<lambda>indices.
     bnd (Embedding_forward (te_pos_embedding self) indices) (\<lambda>pos_emb.
     bnd (binop (+) tok_emb pos_emb) (\<lambda>s.
     let emb = Dropout_forward (te_dropout self) s in
     bnd (TransformerEncoder_attr self ''padding_index'') (\<lambda>padding_index.
     bnd (if padding_index \<noteq> PyNone
          then bnd (get_pad_mask x x (te_pad_index self)) (\<lambda>m. Inr (Some m))
          else Inr None) (\<lambda>msk.
     fold_res (\<lambda>x1 layer. EncoderLayer_forward layer x1 msk) emb (te_layers self))))))))"

section \<open>Transformer decoder\<close>

record transformer_decoder =
  td_pad_index :: "int option"
  td_tok_embedding :: embedding
  td_pos_embedding :: embedding
  td_dropout :: dropout
  td_layers :: "decoder_layer list"
  td_scale :: real
  td_classifier :: linear

record transformer_decoder_params =
  tdp_tok :: "nat \<Rightarrow> nat \<Rightarrow> real"
  tdp_pos :: "nat \<Rightarrow> nat \<Rightarrow> real"
  tdp_keep :: "nat list \<Rightarrow> bool"
  tdp_layers :: "nat \<Rightarrow> decoder_layer_params"
  tdp_classifier :: linear_params

text \<open>
  \<open>TransformerDecoder.__init__(num_tokens, hid_dim, n_layers, n_heads, pf_dim, dropout,
  pad_index, max_len)\<close>.
\<close>

definition TransformerDecoder_init ::
    "int \<Rightarrow> int \<Rightarrow> int \<Rightarrow> int \<Rightarrow> int \<Rightarrow> real \<Rightarrow> int option \<Rightarrow> int
       \<Rightarrow> transformer_decoder_params \<Rightarrow> error + transformer_decoder" where
  "TransformerDecoder_init num_tokens hid_dim n_layers n_heads pf_dim dropout pad_index max_len ps =
     bnd (Embedding_init num_tokens hid_dim (tdp_tok ps)) (\<lambda>tok.
     bnd (Embedding_init max_len hid_dim (tdp_pos ps)) (\<lambda>pos.
     bnd (Dropout_init dropout (tdp_keep ps)) (\<lambda>d.
     bnd (map_res (\<lambda>i. DecoderLayer_init hid_dim n_heads pf_dim dropout (tdp_layers ps i))
            [0..<nat n_layers]) (\<lambda>layers.
     bnd (Linear_init hid_dim num_tokens (tdp_classifier ps)) (\<lambda>c.
     Inr \<lparr>td_pad_index = pad_index, td_tok_embedding = tok, td_pos_embedding = pos,
          td_dropout = d, td_layers = layers, td_scale = sqrt (real_of_int hid_dim),
          td_classifier = c\<rparr>)))))"

definition TransformerDecoder_attr :: "transformer_decoder \<Rightarrow> string \<Rightarrow> error + pyobj" where
  "TransformerDecoder_attr self name =
     (if name = ''pad_index''
      then Inr (case td_pad_index self of None \<Rightarrow> PyNone | Some p \<Rightarrow> PyInt p)
      else if name = ''tok_embedding'' then Inr (PyEmbedding (td_tok_embedding self))
      else if name = ''pos_embedding'' then Inr (PyEmbedding (td_pos_embedding self))
      else if name = ''dropout'' then Inr (PyDropout (td_dropout self))
      else if name = ''layers'' then Inr (PyDecoderLayers (td_layers self))
      else if name = ''scale'' then Inr (PyFloat (td_scale self))
      else if name = ''classifier'' then Inr (PyLinear (td_classifier self))
      else Inl AttributeError)"

text \<open>
  \<open>TransformerDecoder.forward(x, enc_out, image_emb)\<close>, in two parts. The first part is
  the body up to the loop over the layers: it pads the inputs, embeds them and computes
  the masks, and returns the embedded sequence, the padded encoder output and the two
  masks. In \<open>self.pad_index * torch.ones(...)\<close> a \<open>pad_index\<close> of \<open>None\<close> raises
  TypeError.
\<close>

definition TransformerDecoder_inputs ::
    "transformer_decoder \<Rightarrow> int tensor \<Rightarrow> real tensor \<Rightarrow> real tensor option
       \<Rightarrow> error + (real tensor \<times> real tensor \<times> bool tensor \<times> bool tensor)" where
  "TransformerDecoder_inputs self x enc_out image_emb =
     bnd (shape2 x) (\<lambda>(bs, dec_seq_len0).
     bnd (shape13 enc_out) (\<lambda>(enc_seq_len, hid_dim).
     let dec_seq_len = (if image_emb \<noteq> None then dec_seq_len0 + 1 else dec_seq_len0);
         seq_len = max dec_seq_len enc_seq_len in
     bnd (case td_pad_index self of
            None \<Rightarrow> Inl TypeError
          | Some p \<Rightarrow> Inr (pointwise (\<lambda>v. p * v)
                            (real_to_long (ones [bs, seq_len - dec_seq_len])))) (\<lambda>pad.
     bnd (cat1 x pad) (\<lambda>x1.
     bnd (cat1 enc_out (zeros [bs, seq_len - enc_seq_len, hid_dim])) (\<lambda>enc_out1.
     bnd (Embedding_forward (td_tok_embedding self) x1) (\<lambda>e.
     bnd (case image_emb of
            None \<Rightarrow> Inr e
          | Some ie \<Rightarrow> bnd (unsqueeze 1 ie) (\<lambda>ie1. cat1 ie1 e)) (\<lambda>e1.
     let tok_emb = pointwise (\<lambda>v. v / td_scale self) e1 in
     bnd (repeat [int bs, 1] (arange seq_len)) (\<lambda>indices.
     bnd (Embedding_forward (td_pos_embedding self) indices) (\<lambda>pos_emb.
     bnd (binop (+) tok_emb pos_emb) (\<lambda>s.
     let emb = Dropout_forward (td_dropout self) s in
     bnd (case image_emb of
            None \<Rightarrow> Inr x1
          | Some _ \<Rightarrow> cat1 (real_to_long (ones [bs, 1])) x1) (\<lambda>x2.
     bnd (get_pad_mask x2 x2 (td_pad_index self)) (\<lambda>pad_mask.
     bnd (get_autoregressive_mask x2) (\<lambda>autoregr_mask.
     bnd (binop (\<or>) pad_mask autoregr_mask) (\<lambda>input_mask.
     let enc_inp_mask = bool_to_long (all_last (pointwise (\<lambda>v. v \<noteq> 0) enc_out1)) in
     bnd (get_pad_mask x2 enc_inp_mask (td_pad_index self)) (\<lambda>enc_mask.
     Inr (emb, enc_out1, input_mask, enc_mask))))))))))))))))"

definition TransformerDecoder_forward ::
    "transformer_decoder \<Rightarrow> int tensor \<Rightarrow> real tensor \<Rightarrow> real tensor option
       \<Rightarrow> error + real tensor" where
  "TransformerDecoder_forward self x enc_out image_emb =
     bnd (TransformerDecoder_inputs self x enc_out image_emb)
       (\<lambda>(emb, enc_out1, input_mask, enc_mask).
     bnd (fold_res (\<lambda>x1 layer. DecoderLayer_forward layer x1 enc_out1
                      (Some input_mask) (Some enc_mask)) emb (td_layers self)) (\<lambda>x3.
     Linear_forward (td_classifier self) x3))"

text \<open>\<open>TransformerDecoder.inference_step(inputs, hidden)\<close>.\<close>

definition TransformerDecoder_inference_step ::
    "transformer_decoder \<Rightarrow> pyobj \<Rightarrow> pyobj \<Rightarrow> error + pyobj \<times> pyobj" where
  "TransformerDecoder_inference_step self inputs hidden =
     bnd (TransformerDecoder_attr self ''embedding'') (\<lambda>emb.
     bnd (py_call emb [inputs]) (\<lambda>inputs1.
     bnd (TransformerDecoder_attr self ''lstm'') (\<lambda>lstm.
     bnd (py_call lstm [inputs1, hidden]) (\<lambda>r.
     bnd (py_unpack2 r) (\<lambda>(outputs, hidden1).
     bnd (TransformerDecoder_attr self ''linear'') (\<lambda>lin.
     bnd (py_squeeze1 outputs) (\<lambda>sq.
     bnd (py_call lin [sq]) (\<lambda>outputs1.
     Inr (outputs1, hidden1)))))))))"

section \<open>Kinds of error\<close>

text \<open>A result that is a value or the RuntimeError of a shape mismatch.\<close>

definition only_rt :: "error + 'a \<Rightarrow> bool" where
  "only_rt r = (case r of Inl e \<Rightarrow> e = RuntimeError | Inr _ \<Rightarrow> True)"

section \<open>Concrete parameters\<close>

definition zero_pf_params :: pf_params where
  "zero_pf_params = \<lparr>p_1 = zero_linear, p_2 = zero_linear, p_pf_keep = (\<lambda>_. True)\<rparr>"

definition zero_ln :: ln_params where
  "zero_ln = (\<lambda>_. 1, \<lambda>_. 0)"

definition zero_encoder_layer_params :: encoder_layer_params where
  "zero_encoder_layer_params =
     \<lparr>ep_self_attn = zero_params, ep_self_attn_ln = zero_ln, ep_pf = zero_pf_params,
      ep_pf_ln = zero_ln, ep_keep = (\<lambda>_. True)\<rparr>"

definition zero_decoder_layer_params :: decoder_layer_params where
  "zero_decoder_layer_params =
     \<lparr>dp_self_attn = zero_params, dp_self_attn_ln = zero_ln, dp_enc_attn = zero_params,
      dp_enc_attn_ln = zero_ln, dp_pf = zero_pf_params, dp_pf_ln = zero_ln,
      dp_keep = (\<lambda>_. True)\<rparr>"

definition zero_encoder_params :: transformer_encoder_params where
  "zero_encoder_params =
     \<lparr>tep_tok = (\<lambda>_ _. 0), tep_pos = (\<lambda>_ _. 0), tep_keep = (\<lambda>_. True),
      tep_layers = (\<lambda>_. zero_encoder_layer_params)\<rparr>"

definition zero_decoder_params :: transformer_decoder_params where
  "zero_decoder_params =
     \<lparr>tdp_tok = (\<lambda>_ _. 0), tdp_pos = (\<lambda>_ _. 0), tdp_keep = (\<lambda>_. True),
      tdp_layers = (\<lambda>_. zero_decoder_layer_params), tdp_classifier = zero_linear\<rparr>"


section \<open>Basic facts\<close>

lemma bnd_Inl [simp]: "bnd (Inl e) f = Inl e"
  by (simp add: bnd_def)

lemma bnd_Inr [simp]: "bnd (Inr v) f = f v"
  by (simp add: bnd_def)

lemma shape2_pair [simp]: "shape t = a # b # rest \<Longrightarrow> shape2 t = Inr (a, b)"
  by (simp add: shape2_def)

lemma bnd_eq_Inr: "bnd m f = Inr r \<longleftrightarrow> (\<exists>v. m = Inr v \<and> f v = Inr r)"
  by (cases m) auto

lemma mha_init_facts:
  assumes "MultiHeadAttentionLayer_init hid_dim n_heads p ps = Inr self"
  shows "n_heads \<noteq> 0" "hid_dim mod n_heads = 0" "0 \<le> hid_dim" "0 \<le> p" "p \<le> 1"
    "mha_hid_dim self = hid_dim" "mha_n_heads self = n_heads"
    "mha_head_dim self = hid_dim div n_heads"
    "in_features (fc_q self) = nat hid_dim" "out_features (fc_q self) = nat hid_dim"
    "in_features (fc_k self) = nat hid_dim" "out_features (fc_k self) = nat hid_dim"
    "in_features (fc_v self) = nat hid_dim" "out_features (fc_v self) = nat hid_dim"
    "in_features (fc_o self) = nat hid_dim" "out_features (fc_o self) = nat hid_dim"
    "drop_p (mha_dropout self) = p" "mha_scale self = sqrt (real_of_int (hid_dim div n_heads))"
  using assms
  by (auto simp: MultiHeadAttentionLayer_init_def py_mod_def py_floordiv_def Linear_init_def
      Dropout_init_def bnd_eq_Inr split: if_splits)

lemma mha_init_ok:
  assumes "0 \<le> hid_dim" "n_heads \<noteq> 0" "0 \<le> p" "p \<le> 1" "hid_dim mod n_heads = 0"
  shows "\<exists>l. MultiHeadAttentionLayer_init hid_dim n_heads p ps = Inr l"
  using assms
  by (simp add: MultiHeadAttentionLayer_init_def py_mod_def py_floordiv_def Linear_init_def
      Dropout_init_def)


lemma heads_product:
  assumes "0 < n_heads" "0 \<le> hid_dim" "hid_dim mod n_heads = 0"
  shows "0 \<le> hid_dim div n_heads" "nat n_heads * nat (hid_dim div n_heads) = nat hid_dim"
proof -
  show hd: "0 \<le> hid_dim div n_heads" using assms(1,2) by (simp add: pos_imp_zdiv_nonneg_iff)
  show "nat n_heads * nat (hid_dim div n_heads) = nat hid_dim"
    using assms hd by (metis mod_0_imp_dvd dvd_mult_div_cancel nat_mult_distrib less_imp_le)
qed

lemma view_nonneg:
  assumes "\<forall>d\<in>set sizes. 0 \<le> d" "prod_list (map nat sizes) = numel t"
  shows "view sizes t = Inr \<lparr>shape = map nat sizes,
            elem = (\<lambda>idx. elem t (unravel (shape t) (ravel (map nat sizes) idx)))\<rparr>"
proof -
  have f: "filter (\<lambda>d. 0 \<le> d) sizes = sizes" using assms(1) by (simp add: filter_id_conv)
  have n: "- 1 \<notin> set sizes" using assms(1) by auto
  then have c: "count_list sizes (- 1) = 0" by (simp add: count_list_0_iff)
  have e: "\<not> (\<exists>d\<in>set sizes. d < - 1)" using assms(1) by auto
  show ?thesis
    unfolding view_def infer_size_def Let_def f using n c e assms(2) by simp
qed

section \<open>The padding mask\<close>

lemma wrap64_id:
  "- 9223372036854775808 \<le> v \<Longrightarrow> v < 9223372036854775808 \<Longrightarrow> wrap64 v = v"
  by (simp add: wrap64_def)

text \<open>
  C2. For a query of shape \<open>[bs, query_len]\<close>, a key of shape \<open>[bs, key_len]\<close> and an
  integer \<open>pad_index\<close> that fits a signed 64-bit integer, \<open>get_pad_mask\<close> returns a
  boolean tensor of shape \<open>[bs, query_len, key_len]\<close> whose entry at \<open>(b, i, j)\<close> is true
  exactly when \<open>key[b, j] = pad_index\<close>; the result is the same for every query of that
  shape, so it depends neither on the row \<open>i\<close> nor on the values in the query.
\<close>

theorem get_pad_mask_entries:
  assumes "shape query = [bs, query_len]" and "shape key = [bs, key_len]"
    and "- 9223372036854775808 \<le> pad_index" and "pad_index < 9223372036854775808"
  shows "\<exists>m. get_pad_mask query key (Some pad_index) = Inr m
           \<and> shape m = [bs, query_len, key_len]
           \<and> (\<forall>b<bs. \<forall>i<query_len. \<forall>j<key_len.
                 elem m [b, i, j] = (elem key [b, j] = pad_index))
           \<and> (\<forall>query'::'a tensor. shape query' = [bs, query_len] \<longrightarrow>
                 get_pad_mask query' key (Some pad_index) = Inr m)"
proof -
  have w: "wrap64 pad_index = pad_index" using assms(3,4) by (rule wrap64_id)
  have r: "\<not> (pad_index < - 9223372036854775808 \<or> 18446744073709551616 \<le> pad_index)"
    using assms(3,4) by simp
  show ?thesis
    using assms(1,2)
    by (auto simp: get_pad_mask_def eq_scalar_def r w unsqueeze_def expand_def Let_def)
qed

theorem get_pad_mask_entries_witness:
  "shape \<lparr>shape = [1, 2], elem = (\<lambda>idx. 0::int)\<rparr> = [1, 2]
   \<and> shape \<lparr>shape = [1, 3], elem = (\<lambda>idx. int (idx ! 1))\<rparr> = [1, 3]
   \<and> - 9223372036854775808 \<le> (2::int) \<and> (2::int) < 9223372036854775808
   \<and> (\<exists>m. get_pad_mask \<lparr>shape = [1, 2], elem = (\<lambda>idx. 0::int)\<rparr>
              \<lparr>shape = [1, 3], elem = (\<lambda>idx. int (idx ! 1))\<rparr> (Some 2) = Inr m
          \<and> shape m = [1, 2, 3]
          \<and> elem m [0, 1, 2] \<and> \<not> elem m [0, 1, 1])"
  using get_pad_mask_entries [of "\<lparr>shape = [1, 2], elem = (\<lambda>idx. 0::int)\<rparr>" 1 2
      "\<lparr>shape = [1, 3], elem = (\<lambda>idx. int (idx ! 1))\<rparr>" 3 2, where ?'a = int]
  by auto

text \<open>
  Outside that range the mask is not the comparison with \<open>pad_index\<close>: the integer
  \<open>2^64\<close> raises OverflowError, and \<open>2^64 - 1\<close> is read as \<open>-1\<close>, so that a key entry
  \<open>-1\<close> is marked as padding although it differs from \<open>pad_index\<close>.
\<close>

theorem get_pad_mask_counterexample:
  "get_pad_mask \<lparr>shape = [1, 1], elem = (\<lambda>idx. 0::int)\<rparr>
       \<lparr>shape = [1, 1], elem = (\<lambda>idx. - 1)\<rparr> (Some 18446744073709551616) = Inl OverflowError
   \<and> (\<exists>m. get_pad_mask \<lparr>shape = [1, 1], elem = (\<lambda>idx. 0::int)\<rparr>
              \<lparr>shape = [1, 1], elem = (\<lambda>idx. - 1)\<rparr> (Some 18446744073709551615) = Inr m
          \<and> elem m [0, 0, 0]
          \<and> elem \<lparr>shape = [1, 1], elem = (\<lambda>idx. - 1 :: int)\<rparr> [0, 0] \<noteq> 18446744073709551615)"
  by (simp add: get_pad_mask_def eq_scalar_def wrap64_def unsqueeze_def expand_def Let_def)

section \<open>The autoregressive mask\<close>

text \<open>
  C3. For a sequence tensor of shape \<open>[bs, seq_len]\<close>, \<open>get_autoregressive_mask\<close>
  returns a boolean tensor of shape \<open>[bs, seq_len, seq_len]\<close> whose entry at
  \<open>(b, i, j)\<close> is true exactly when \<open>j > i\<close>, and the result is the same for every
  sequence of that shape.
\<close>

theorem get_autoregressive_mask_entries:
  assumes "shape seq = [bs, seq_len]"
  shows "\<exists>m. get_autoregressive_mask seq = Inr m
           \<and> shape m = [bs, seq_len, seq_len]
           \<and> (\<forall>b<bs. \<forall>i<seq_len. \<forall>j<seq_len. elem m [b, i, j] = (i < j))
           \<and> (\<forall>seq'::'a tensor. shape seq' = [bs, seq_len] \<longrightarrow>
                 get_autoregressive_mask seq' = Inr m)"
  using assms
  by (auto simp: get_autoregressive_mask_def triu_def ones_def to_bool_def Let_def)

theorem get_autoregressive_mask_entries_witness:
  "shape \<lparr>shape = [1, 2], elem = (\<lambda>idx. 7::int)\<rparr> = [1, 2]
   \<and> (\<exists>m. get_autoregressive_mask \<lparr>shape = [1, 2], elem = (\<lambda>idx. 7::int)\<rparr> = Inr m
          \<and> shape m = [1, 2, 2]
          \<and> elem m [0, 0, 1] \<and> \<not> elem m [0, 1, 1] \<and> \<not> elem m [0, 1, 0])"
  using get_autoregressive_mask_entries [of "\<lparr>shape = [1, 2], elem = (\<lambda>idx. 7::int)\<rparr>" 1 2,
      where ?'a = int]
  by auto

section \<open>Constructing the attention layer\<close>




section \<open>Which errors the attention layer raises\<close>

lemma only_rt_simps [simp]: "only_rt (Inl e) = (e = RuntimeError)" "only_rt (Inr v)"
  by (simp_all add: only_rt_def)

lemma only_rt_bnd: "only_rt m \<Longrightarrow> (\<And>v. m = Inr v \<Longrightarrow> only_rt (f v)) \<Longrightarrow> only_rt (bnd m f)"
  by (cases m) auto

lemma only_rt_Linear [simp]: "only_rt (Linear_forward l x)"
  by (simp add: Linear_forward_def split: list.splits)

lemma only_rt_infer [simp]: "only_rt (infer_size sizes n)"
  by (simp add: infer_size_def Let_def)

lemma only_rt_view [simp]: "only_rt (view sizes t)"
  by (simp add: view_def only_rt_bnd)

lemma only_rt_permute [simp]: "only_rt (permute dims t)"
  by (simp add: permute_def Let_def)

lemma only_rt_matmul [simp]: "only_rt (matmul a b)"
  by (simp add: matmul_def Let_def)

lemma only_rt_repeat [simp]: "only_rt (repeat reps t)"
  by (simp add: repeat_def Let_def)

lemma only_rt_broadcast [simp]: "only_rt (broadcast_shapes s1 s2)"
  by (simp add: broadcast_shapes_def Let_def)

lemma only_rt_binop [simp]: "only_rt (binop f a b)"
  by (simp add: binop_def only_rt_bnd)

lemma only_rt_apply_mask:
  "(case msk of None \<Rightarrow> True | Some m \<Rightarrow> shape m \<noteq> []) \<Longrightarrow> only_rt (apply_mask self e msk)"
  by (cases msk) (auto simp: apply_mask_def unsqueeze_def masked_fill_def intro!: only_rt_bnd
      simp: Suc_le_eq)

lemma only_rt_forward:
  assumes "length (shape query) \<ge> 2" "(case msk of None \<Rightarrow> True | Some m \<Rightarrow> shape m \<noteq> [])"
  shows "only_rt (MultiHeadAttentionLayer_forward self query key val msk)"
proof -
  obtain bs L rest where q: "shape query = bs # L # rest"
    using assms(1) by (cases "shape query"; cases "tl (shape query)") auto
  show ?thesis
    unfolding MultiHeadAttentionLayer_forward_def Let_def
    by (simp add: q) (intro only_rt_bnd only_rt_apply_mask assms(2); simp)
qed

lemma view_merge_fail:
  assumes "0 \<le> h" "bs * nat h = 0"
  shows "view [int bs, - 1, h] t = Inl RuntimeError"
  using assms by (auto simp: view_def infer_size_def Let_def)

lemma view_heads_fail_neg:
  assumes "n_heads < 0" "0 \<le> hid_dim" "hid_dim mod n_heads = 0"
  shows "view [int bs, int L, n_heads, hid_dim div n_heads] t = Inl RuntimeError"
proof (cases "n_heads < - 1")
  case True
  then show ?thesis by (simp add: view_def infer_size_def)
next
  case False
  with assms have nh: "n_heads = - 1" by simp
  consider "hid_dim = 0" | "hid_dim = 1" | "1 < hid_dim" using assms(2) by linarith
  then show ?thesis
    by cases (auto simp: nh view_def infer_size_def Let_def)
qed

lemma view_heads_fail_len:
  assumes "0 < n_heads" "0 \<le> hid_dim" "hid_dim mod n_heads = 0"
    and "numel t = bs * Lk * nat hid_dim" "bs * nat hid_dim \<noteq> 0" "Lk \<noteq> Lq"
  shows "view [int bs, int Lq, n_heads, hid_dim div n_heads] t = Inl RuntimeError"
proof -
  note h = heads_product[OF assms(1,2,3)]
  from h(2) have "bs * Lq * nat n_heads * nat (hid_dim div n_heads) = bs * Lq * nat hid_dim"
    by (simp add: mult.assoc)
  moreover have "bs * Lk * nat hid_dim \<noteq> bs * Lq * nat hid_dim"
    using assms(5,6) by auto
  ultimately show ?thesis
    using assms(1,4) h(1) by (auto simp: view_def infer_size_def Let_def mult.assoc)
qed

lemma Linear_forward_shape:
  "Linear_forward l x = Inr y \<Longrightarrow> shape x \<noteq> [] \<and> last (shape x) = in_features l
      \<and> shape y = butlast (shape x) @ [out_features l]"
  by (cases "shape x" rule: rev_cases) (auto simp: Linear_forward_def split: if_splits)

text \<open>
  C9. For a constructed layer, a query of shape \<open>[bs, Lq, _]\<close> and a key of shape
  \<open>[bs, Lk, _]\<close> with the same batch size \<open>bs\<close>, whose sequence length \<open>Lk\<close> differs
  from \<open>Lq\<close>, \<open>forward\<close> raises the shape error (a RuntimeError), whatever the value
  tensor and the mask (a mask, when given, being a tensor with at least one axis).
\<close>

theorem forward_key_length_mismatch:
  assumes init: "MultiHeadAttentionLayer_init hid_dim n_heads p ps = Inr self"
    and q: "shape query = [bs, Lq, dq]" and k: "shape key = [bs, Lk, dk]"
    and ne: "Lk \<noteq> Lq"
    and m: "case msk of None \<Rightarrow> True | Some m \<Rightarrow> shape m \<noteq> []"
  shows "MultiHeadAttentionLayer_forward self query key val msk = Inl RuntimeError"
proof -
  note f = mha_init_facts[OF init]
  have rt: "only_rt (MultiHeadAttentionLayer_forward self query key val msk)"
    using q m by (intro only_rt_forward) auto
  have "MultiHeadAttentionLayer_forward self query key val msk \<noteq> Inr out" for out
  proof
    assume "MultiHeadAttentionLayer_forward self query key val msk = Inr out"
    then obtain k0 q0 x2 q1 k1 x3 :: "real tensor"
      where k0: "Linear_forward (fc_k self) key = Inr k0"
        and vq: "view [int bs, int Lq, n_heads, hid_dim div n_heads] q0 = Inr q1"
        and vk: "view [int bs, int Lq, n_heads, hid_dim div n_heads] k0 = Inr k1"
        and vx: "view [int bs, - 1, hid_dim] x2 = Inr x3"
      unfolding MultiHeadAttentionLayer_forward_def Let_def
      by (auto simp: q bnd_eq_Inr f(6,7,8))
    from Linear_forward_shape[OF k0] have "shape k0 = [bs, Lk, nat hid_dim]"
      by (simp add: k f)
    then have n: "numel k0 = bs * Lk * nat hid_dim" by (simp add: numel_def)
    show False
    proof (cases "n_heads < 0")
      case True
      then show ?thesis using vq view_heads_fail_neg[OF True f(3) f(2), of bs Lq q0] by simp
    next
      case False
      then have pos: "0 < n_heads" using f(1) by simp
      show ?thesis
      proof (cases "bs * nat hid_dim = 0")
        case True
        then show ?thesis using vx view_merge_fail[OF f(3) True, of x2] by simp
      next
        case False
        then show ?thesis using vk view_heads_fail_len[OF pos f(3) f(2) n False ne] by simp
      qed
    qed
  qed
  with rt show ?thesis
    by (cases "MultiHeadAttentionLayer_forward self query key val msk") auto
qed

theorem forward_key_length_mismatch_witness:
  "\<exists>self. MultiHeadAttentionLayer_init 4 2 0 zero_params = Inr self
     \<and> shape \<lparr>shape = [1, 2, 4], elem = (\<lambda>_. 0::real)\<rparr> = [1, 2, 4]
     \<and> shape \<lparr>shape = [1, 3, 4], elem = (\<lambda>_. 0::real)\<rparr> = [1, 3, 4]
     \<and> (3::nat) \<noteq> 2
     \<and> MultiHeadAttentionLayer_forward self \<lparr>shape = [1, 2, 4], elem = (\<lambda>_. 0)\<rparr>
          \<lparr>shape = [1, 3, 4], elem = (\<lambda>_. 0)\<rparr> \<lparr>shape = [1, 3, 4], elem = (\<lambda>_. 0)\<rparr> None
         = Inl RuntimeError"
proof -
  obtain self where i: "MultiHeadAttentionLayer_init 4 2 0 zero_params = Inr self"
    using mha_init_ok[of 4 2 0 zero_params] by auto
  have "MultiHeadAttentionLayer_forward self \<lparr>shape = [1, 2, 4], elem = (\<lambda>_. 0)\<rparr>
          \<lparr>shape = [1, 3, 4], elem = (\<lambda>_. 0)\<rparr> \<lparr>shape = [1, 3, 4], elem = (\<lambda>_. 0)\<rparr> None
         = Inl RuntimeError"
    by (rule forward_key_length_mismatch[OF i, where bs = 1 and Lq = 2 and Lk = 3]) simp_all
  with i show ?thesis by auto
qed

section \<open>What the attention layer computes\<close>

lemma sum_list_upt_cong:
  "(\<And>k. k < n \<Longrightarrow> f k = g k) \<Longrightarrow> (\<Sum>k\<leftarrow>[0..<n]. f k) = (\<Sum>k\<leftarrow>[0..<n]. (g k :: real))"
  by (rule arg_cong[of _ _ sum_list]) simp

lemma linear_image_cong:
  "(\<And>k. k < in_features l \<Longrightarrow> x k = y k) \<Longrightarrow> linear_image l x c = linear_image l y c"
  unfolding linear_image_def by (simp cong: sum_list_upt_cong)

lemma Linear_forward_3:
  assumes "shape x = [a, b, in_features l]"
  shows "\<exists>y. Linear_forward l x = Inr y \<and> shape y = [a, b, out_features l]
           \<and> (\<forall>i j c. elem y [i, j, c] = linear_image l (\<lambda>m. elem x [i, j, m]) c)"
  using assms by (simp add: Linear_forward_def)

lemma div_mult_add: "r < n \<Longrightarrow> (q * n + r) div n = (q::nat)"
  by (cases "n = 0") simp_all

lemma mod_mult_add: "r < n \<Longrightarrow> (q * n + r) mod n = (r::nat)"
  by simp

lemma split_index:
  assumes "s < L" "h < nh" "d < dh"
  shows "unravel [bs, L, nh * dh] (ravel [bs, L, nh, dh] [b, s, h, d]) = [b, s, h * dh + d]"
proof -
  have 1: "h * dh + d < nh * dh"
  proof -
    have "h * dh + d < h * dh + dh" using assms(3) by simp
    also have "\<dots> = Suc h * dh" by simp
    also have "\<dots> \<le> nh * dh" using assms(2) by (intro mult_le_mono1) simp
    finally show ?thesis .
  qed
  have 2: "s * (nh * dh) + (h * dh + d) < L * (nh * dh)"
  proof -
    have "s * (nh * dh) + (h * dh + d) < s * (nh * dh) + nh * dh" using 1 by simp
    also have "\<dots> = Suc s * (nh * dh)" by simp
    also have "\<dots> \<le> L * (nh * dh)" using assms(1) by (intro mult_le_mono1) simp
    finally show ?thesis .
  qed
  show ?thesis using 1 2 by (simp add: div_mult_add)
qed

lemma merge_index:
  assumes "s < L" "c < nh * dh"
  shows "unravel [bs, L, nh, dh] (ravel [bs, L, nh * dh] [b, s, c]) = [b, s, c div dh, c mod dh]"
proof -
  have 2: "s * (nh * dh) + c < L * (nh * dh)"
  proof -
    have "s * (nh * dh) + c < s * (nh * dh) + nh * dh" using assms(2) by simp
    also have "\<dots> = Suc s * (nh * dh)" by simp
    also have "\<dots> \<le> L * (nh * dh)" using assms(1) by (intro mult_le_mono1) simp
    finally show ?thesis .
  qed
  show ?thesis using assms(2) 2 by (simp add: div_mult_add)
qed


lemma view_split_heads:
  assumes "shape t = [bs, L, nh * dh]"
  shows "\<exists>v. view [int bs, int L, int nh, int dh] t = Inr v \<and> shape v = [bs, L, nh, dh]
           \<and> (\<forall>b s h d. s < L \<longrightarrow> h < nh \<longrightarrow> d < dh \<longrightarrow>
                  elem v [b, s, h, d] = elem t [b, s, h * dh + d])"
proof -
  have "prod_list (map nat [int bs, int L, int nh, int dh]) = numel t"
    by (simp add: numel_def assms)
  then have "view [int bs, int L, int nh, int dh] t
      = Inr \<lparr>shape = map nat [int bs, int L, int nh, int dh],
             elem = (\<lambda>idx. elem t (unravel (shape t)
                        (ravel (map nat [int bs, int L, int nh, int dh]) idx)))\<rparr>"
    by (intro view_nonneg) simp_all
  then show ?thesis
    using split_index[of _ L _ nh _ dh bs] by (simp add: assms del: ravel.simps unravel.simps)
qed

lemma infer_size_merge:
  assumes "0 < bs" "0 < H"
  shows "infer_size [int bs, - 1, int H] (L * (bs * H)) = Inr [bs, L, H]"
proof -
  show ?thesis
    unfolding infer_size_def Let_def using assms by simp
qed

lemma view_merge_heads:
  assumes "shape t = [bs, L, nh, dh]" "0 < bs" "0 < H" "H = nh * dh"
  shows "\<exists>v. view [int bs, - 1, int H] t = Inr v \<and> shape v = [bs, L, H]
           \<and> (\<forall>b s c. s < L \<longrightarrow> c < H \<longrightarrow>
                  elem v [b, s, c] = elem t [b, s, c div dh, c mod dh])"
proof -
  have n: "numel t = L * (bs * H)" by (simp add: numel_def assms(1,4))
  show ?thesis
    using merge_index[of _ L _ nh dh bs]
    by (simp add: view_def n infer_size_merge[OF assms(2,3)] assms(1))
       (simp add: assms(4))
qed

lemma permute_0213:
  assumes "shape t = [a, b, c, d]"
  shows "\<exists>p. permute [0, 2, 1, 3] t = Inr p \<and> shape p = [a, c, b, d]
           \<and> (\<forall>i j k l. elem p [i, j, k, l] = elem t [i, k, j, l])"
  using assms by (simp add: permute_def upt_rec numeral_eq_Suc)

lemma permute_0231:
  assumes "shape t = [a, b, c, d]"
  shows "\<exists>p. permute [0, 2, 3, 1] t = Inr p \<and> shape p = [a, c, d, b]
           \<and> (\<forall>i j k l. elem p [i, j, k, l] = elem t [i, l, j, k])"
  using assms by (simp add: permute_def upt_rec numeral_eq_Suc)

lemma matmul_4:
  assumes "shape x = [a, b, n, m]" "shape y = [a, b, m, p]"
  shows "\<exists>z. matmul x y = Inr z \<and> shape z = [a, b, n, p]
           \<and> (\<forall>i j r c. elem z [i, j, r, c]
                  = (\<Sum>k\<leftarrow>[0..<m]. elem x [i, j, r, k] * elem y [i, j, k, c]))"
  using assms by (simp add: matmul_def numeral_eq_Suc)

lemma softmax_4:
  assumes "shape t = [a, b, c, n]"
  shows "shape (softmax t) = [a, b, c, n]"
    and "elem (softmax t) [i, j, k, l]
           = exp (elem t [i, j, k, l]) / (\<Sum>m\<leftarrow>[0..<n]. exp (elem t [i, j, k, m]))"
  using assms by (simp_all add: softmax_def)

lemma apply_mask_Some:
  assumes "shape e = [bs, nh, L, L]" "shape m = [bs, L, L]" "mha_n_heads self = int nh"
  shows "\<exists>r. apply_mask self e (Some m) = Inr r \<and> shape r = [bs, nh, L, L]
           \<and> (\<forall>b h i j. b < bs \<longrightarrow> h < nh \<longrightarrow> i < L \<longrightarrow> j < L \<longrightarrow>
                  elem r [b, h, i, j]
                    = (if elem m [b, i, j] then - 100000000 else elem e [b, h, i, j]))"
  using assms
  by (auto simp: apply_mask_def unsqueeze_def repeat_def masked_fill_def binop_def
      broadcast_shapes_def bidx_def Let_def)


lemma apply_mask_shape:
  assumes "shape e = [bs, nh, L, L]" "mha_n_heads self = int nh"
    and "case msk of None \<Rightarrow> True | Some m \<Rightarrow> shape m = [bs, L, L]"
  shows "\<exists>r. apply_mask self e msk = Inr r \<and> shape r = [bs, nh, L, L]
           \<and> (\<forall>b h i j. b < bs \<longrightarrow> h < nh \<longrightarrow> i < L \<longrightarrow> j < L \<longrightarrow>
                  elem r [b, h, i, j]
                    = (case msk of None \<Rightarrow> elem e [b, h, i, j]
                       | Some m \<Rightarrow> if elem m [b, i, j] then - 100000000 else elem e [b, h, i, j]))"
proof (cases msk)
  case None
  then show ?thesis using assms(1) by (simp add: apply_mask_def)
next
  case (Some m)
  then show ?thesis using apply_mask_Some[OF assms(1) _ assms(2), of m] assms(3) by simp
qed

lemma forward_empty_raises:
  assumes init: "MultiHeadAttentionLayer_init hid_dim n_heads p ps = Inr self"
    and q: "shape query = bs # L # rest" and z: "bs * nat hid_dim = 0"
    and m: "case msk of None \<Rightarrow> True | Some m \<Rightarrow> shape m \<noteq> []"
  shows "MultiHeadAttentionLayer_forward self query key val msk = Inl RuntimeError"
proof -
  note f = mha_init_facts[OF init]
  have rt: "only_rt (MultiHeadAttentionLayer_forward self query key val msk)"
    using q m by (intro only_rt_forward) auto
  have "MultiHeadAttentionLayer_forward self query key val msk \<noteq> Inr out" for out
    unfolding MultiHeadAttentionLayer_forward_def Let_def
    by (auto simp: q bnd_eq_Inr f(6) view_merge_fail[OF f(3) z])
  with rt show ?thesis
    by (cases "MultiHeadAttentionLayer_forward self query key val msk") auto
qed

text \<open>
  C4. For a layer constructed with dropout 0, positive \<open>n_heads\<close> and \<open>hid_dim\<close>, a
  non-empty batch, and query, key and value of shape \<open>[bs, seq_len, hid_dim]\<close> (with an
  optional boolean mask of shape \<open>[bs, seq_len, seq_len]\<close>), \<open>forward\<close> returns a tensor
  of shape \<open>[bs, seq_len, hid_dim]\<close> whose entries are those of the attention of
  the specification: per head the softmax of the scaled products of the projected query and key,
  with \<open>-1e8\<close> at the masked positions, applied to the projected values, the heads
  concatenated and mapped through \<open>fc_o\<close>.
\<close>

theorem forward_attention:
  assumes init: "MultiHeadAttentionLayer_init hid_dim n_heads 0 ps = Inr self"
    and pos: "0 < n_heads" "0 < hid_dim" "0 < bs"
    and q: "shape query = [bs, seq_len, nat hid_dim]"
    and k: "shape key = [bs, seq_len, nat hid_dim]"
    and v: "shape val = [bs, seq_len, nat hid_dim]"
    and m: "case msk of None \<Rightarrow> True | Some m \<Rightarrow> shape m = [bs, seq_len, seq_len]"
  shows "\<exists>out. MultiHeadAttentionLayer_forward self query key val msk = Inr out
           \<and> shape out = [bs, seq_len, nat hid_dim]
           \<and> (\<forall>b<bs. \<forall>i<seq_len. \<forall>c<nat hid_dim.
                 elem out [b, i, c] = attention_spec self query key val msk seq_len b i c)"
proof -
  note f = mha_init_facts[OF init]
  define nh where "nh = nat n_heads"
  define dh where "dh = nat (hid_dim div n_heads)"
  define H where "H = nat hid_dim"
  define L where "L = seq_len"
  note hp = heads_product[OF pos(1) f(3) f(2)]
  have H: "H = nh * dh" using hp(2) by (simp add: nh_def dh_def H_def)
  have Hpos: "0 < H" using pos(2) by (simp add: H_def)
  then have dhpos: "0 < dh" using H by simp
  have ints: "mha_n_heads self = int nh" "mha_head_dim self = int dh" "mha_hid_dim self = int H"
    using pos(1) hp(1) f(3) by (simp_all add: f(6,7,8) nh_def dh_def H_def)
  have feat: "in_features (fc_q self) = H" "out_features (fc_q self) = H"
    "in_features (fc_k self) = H" "out_features (fc_k self) = H"
    "in_features (fc_v self) = H" "out_features (fc_v self) = H"
    "in_features (fc_o self) = H" "out_features (fc_o self) = H"
    by (simp_all add: f H_def)
  have sc: "mha_scale self = sqrt (real dh)"
    using hp(1) by (simp add: f(18) dh_def)
  have dp: "Dropout_forward (mha_dropout self) t = t" for t
    by (simp add: Dropout_forward_def f(17))
  have s2: "shape2 query = Inr (bs, L)" by (simp add: q L_def)
  \<comment> \<open>the projections\<close>
  obtain q0 where q0: "Linear_forward (fc_q self) query = Inr q0" "shape q0 = [bs, L, nh * dh]"
      "\<And>i j c. elem q0 [i, j, c] = linear_image (fc_q self) (\<lambda>m. elem query [i, j, m]) c"
    using Linear_forward_3[of query bs L "fc_q self"] q by (auto simp: feat H_def L_def H[symmetric])
  obtain k0 where k0: "Linear_forward (fc_k self) key = Inr k0" "shape k0 = [bs, L, nh * dh]"
      "\<And>i j c. elem k0 [i, j, c] = linear_image (fc_k self) (\<lambda>m. elem key [i, j, m]) c"
    using Linear_forward_3[of key bs L "fc_k self"] k by (auto simp: feat H_def L_def H[symmetric])
  obtain v0 where v0: "Linear_forward (fc_v self) val = Inr v0" "shape v0 = [bs, L, nh * dh]"
      "\<And>i j c. elem v0 [i, j, c] = linear_image (fc_v self) (\<lambda>m. elem val [i, j, m]) c"
    using Linear_forward_3[of val bs L "fc_v self"] v by (auto simp: feat H_def L_def H[symmetric])
  \<comment> \<open>the heads\<close>
  obtain q1 where q1: "view [int bs, int L, int nh, int dh] q0 = Inr q1"
      "shape q1 = [bs, L, nh, dh]"
      "\<And>b s h d. s < L \<Longrightarrow> h < nh \<Longrightarrow> d < dh \<Longrightarrow> elem q1 [b, s, h, d] = elem q0 [b, s, h * dh + d]"
    using view_split_heads[OF q0(2)] by auto
  obtain k1 where k1: "view [int bs, int L, int nh, int dh] k0 = Inr k1"
      "shape k1 = [bs, L, nh, dh]"
      "\<And>b s h d. s < L \<Longrightarrow> h < nh \<Longrightarrow> d < dh \<Longrightarrow> elem k1 [b, s, h, d] = elem k0 [b, s, h * dh + d]"
    using view_split_heads[OF k0(2)] by auto
  obtain v1 where v1: "view [int bs, int L, int nh, int dh] v0 = Inr v1"
      "shape v1 = [bs, L, nh, dh]"
      "\<And>b s h d. s < L \<Longrightarrow> h < nh \<Longrightarrow> d < dh \<Longrightarrow> elem v1 [b, s, h, d] = elem v0 [b, s, h * dh + d]"
    using view_split_heads[OF v0(2)] by auto
  obtain q2 where q2: "permute [0, 2, 1, 3] q1 = Inr q2" "shape q2 = [bs, nh, L, dh]"
      "\<And>i j k l. elem q2 [i, j, k, l] = elem q1 [i, k, j, l]"
    using permute_0213[OF q1(2)] by auto
  obtain k2 where k2: "permute [0, 2, 3, 1] k1 = Inr k2" "shape k2 = [bs, nh, dh, L]"
      "\<And>i j k l. elem k2 [i, j, k, l] = elem k1 [i, l, j, k]"
    using permute_0231[OF k1(2)] by auto
  obtain v2 where v2: "permute [0, 2, 1, 3] v1 = Inr v2" "shape v2 = [bs, nh, L, dh]"
      "\<And>i j k l. elem v2 [i, j, k, l] = elem v1 [i, k, j, l]"
    using permute_0213[OF v1(2)] by auto
  \<comment> \<open>the energy\<close>
  obtain qk where qk: "matmul q2 k2 = Inr qk" "shape qk = [bs, nh, L, L]"
      "\<And>i j r c. elem qk [i, j, r, c] = (\<Sum>d\<leftarrow>[0..<dh]. elem q2 [i, j, r, d] * elem k2 [i, j, d, c])"
    using matmul_4[OF q2(2) k2(2)] by auto
  define e0 where "e0 = pointwise (\<lambda>e. e / mha_scale self) qk"
  have e0: "shape e0 = [bs, nh, L, L]" "\<And>idx. elem e0 idx = elem qk idx / sqrt (real dh)"
    by (simp_all add: e0_def pointwise_def qk(2) sc)
  obtain en where en: "apply_mask self e0 msk = Inr en" "shape en = [bs, nh, L, L]"
      "\<And>b h i j. b < bs \<Longrightarrow> h < nh \<Longrightarrow> i < L \<Longrightarrow> j < L \<Longrightarrow>
          elem en [b, h, i, j]
            = (case msk of None \<Rightarrow> elem e0 [b, h, i, j]
               | Some m \<Rightarrow> if elem m [b, i, j] then - 100000000 else elem e0 [b, h, i, j])"
    using apply_mask_shape[OF e0(1) ints(1), of msk] m unfolding L_def by auto
  have energy: "elem en [b, h, i, j] = head_energy self query key msk b h i j"
    if "b < bs" "h < nh" "i < L" "j < L" for b h i j
  proof -
    have "elem e0 [b, h, i, j]
        = (\<Sum>d\<leftarrow>[0..<dh]. linear_image (fc_q self) (\<lambda>m. elem query [b, i, m]) (h * dh + d)
                          * linear_image (fc_k self) (\<lambda>m. elem key [b, j, m]) (h * dh + d))
           / sqrt (real dh)"
      unfolding e0(2) qk(3)
      by (simp add: q2(3) k2(3) q1(3) k1(3) q0(3) k0(3) that cong: sum_list_upt_cong)
    then show ?thesis
      unfolding en(3)[OF that] head_energy_def Let_def ints by (simp split: option.split)
  qed
  \<comment> \<open>the attention weights and the heads' outputs\<close>
  define att where "att = Dropout_forward (mha_dropout self) (softmax en)"
  have att: "shape att = [bs, nh, L, L]"
    "\<And>i j k l. elem att [i, j, k, l]
        = exp (elem en [i, j, k, l]) / (\<Sum>t\<leftarrow>[0..<L]. exp (elem en [i, j, k, t]))"
    unfolding att_def dp using softmax_4[OF en(2)] by simp_all
  have attention: "elem att [b, h, i, j] = head_attention self query key msk L b h i j"
    if "b < bs" "h < nh" "i < L" "j < L" for b h i j
    unfolding att(2) head_attention_def
    by (simp add: energy that cong: sum_list_upt_cong)
  obtain x1 where x1: "matmul att v2 = Inr x1" "shape x1 = [bs, nh, L, dh]"
      "\<And>i j r c. elem x1 [i, j, r, c] = (\<Sum>t\<leftarrow>[0..<L]. elem att [i, j, r, t] * elem v2 [i, j, t, c])"
    using matmul_4[OF att(1) v2(2)] by auto
  have head: "elem x1 [b, h, i, d] = head_output self query key val msk L b h i d"
    if "b < bs" "h < nh" "i < L" "d < dh" for b h i d
    unfolding x1(3) head_output_def ints
    by (simp add: attention v2(3) v1(3) v0(3) that cong: sum_list_upt_cong)
  \<comment> \<open>concatenation and output projection\<close>
  obtain x2 where x2: "permute [0, 2, 1, 3] x1 = Inr x2" "shape x2 = [bs, L, nh, dh]"
      "\<And>i j k l. elem x2 [i, j, k, l] = elem x1 [i, k, j, l]"
    using permute_0213[OF x1(2)] by auto
  obtain x3 where x3: "view [int bs, - 1, int H] x2 = Inr x3" "shape x3 = [bs, L, H]"
      "\<And>b s c. s < L \<Longrightarrow> c < H \<Longrightarrow> elem x3 [b, s, c] = elem x2 [b, s, c div dh, c mod dh]"
    using view_merge_heads[OF x2(2) pos(3) Hpos H] by auto
  obtain out where out: "Linear_forward (fc_o self) x3 = Inr out" "shape out = [bs, L, H]"
      "\<And>i j c. elem out [i, j, c] = linear_image (fc_o self) (\<lambda>m. elem x3 [i, j, m]) c"
    using Linear_forward_3[of x3 bs L "fc_o self"] x3(2) by (auto simp: feat)
  have fw: "MultiHeadAttentionLayer_forward self query key val msk = Inr out"
    unfolding MultiHeadAttentionLayer_forward_def Let_def
    by (simp add: s2 q0(1) k0(1) v0(1) ints q1(1) k1(1) v1(1) q2(1) k2(1) v2(1) qk(1)
        e0_def[symmetric] en(1) att_def[symmetric] x1(1) x2(1) x3(1) out(1)
        del: One_nat_def)
  have concat: "elem x3 [b, i, c]
      = head_output self query key val msk L b (c div dh) i (c mod dh)"
    if "b < bs" "i < L" "c < H" for b i c
  proof -
    have "c div dh < nh" using that(3) dhpos unfolding H by (simp add: less_mult_imp_div_less)
    moreover have "c mod dh < dh" using dhpos by simp
    ultimately show ?thesis by (simp add: x3(3) x2(3) head that)
  qed
  have "elem out [b, i, c] = attention_spec self query key val msk L b i c"
    if "b < bs" "i < L" "c < H" for b i c
    unfolding out(3) attention_spec_def ints
    by (rule linear_image_cong) (simp add: feat concat that)
  with fw out(2) show ?thesis unfolding L_def H_def by auto
qed

theorem forward_attention_witness:
  "\<exists>self. MultiHeadAttentionLayer_init 4 2 0 zero_params = Inr self
     \<and> (0::int) < 2 \<and> (0::int) < 4 \<and> (0::nat) < 1
     \<and> shape \<lparr>shape = [1, 2, 4], elem = (\<lambda>_. 0::real)\<rparr> = [1, 2, nat 4]
     \<and> (\<exists>out. MultiHeadAttentionLayer_forward self \<lparr>shape = [1, 2, 4], elem = (\<lambda>_. 0)\<rparr>
            \<lparr>shape = [1, 2, 4], elem = (\<lambda>_. 0)\<rparr> \<lparr>shape = [1, 2, 4], elem = (\<lambda>_. 0)\<rparr> None
              = Inr out
          \<and> shape out = [1, 2, 4]
          \<and> elem out [0, 1, 3]
              = attention_spec self \<lparr>shape = [1, 2, 4], elem = (\<lambda>_. 0)\<rparr>
                  \<lparr>shape = [1, 2, 4], elem = (\<lambda>_. 0)\<rparr> \<lparr>shape = [1, 2, 4], elem = (\<lambda>_. 0)\<rparr>
                  None 2 0 1 3)"
proof -
  obtain self where i: "MultiHeadAttentionLayer_init 4 2 0 zero_params = Inr self"
    using mha_init_ok[of 4 2 0 zero_params] by auto
  show ?thesis
    using forward_attention[OF i, of 1 "\<lparr>shape = [1, 2, 4], elem = (\<lambda>_. 0)\<rparr>" 2
        "\<lparr>shape = [1, 2, 4], elem = (\<lambda>_. 0)\<rparr>" "\<lparr>shape = [1, 2, 4], elem = (\<lambda>_. 0)\<rparr>" None] i
    by auto
qed

text \<open>
  On an empty batch the layer raises instead: the final \<open>view(bs, -1, hid_dim)\<close> cannot
  infer the \<open>-1\<close> of a tensor without elements.
\<close>

theorem forward_attention_counterexample:
  "\<exists>self. MultiHeadAttentionLayer_init 4 2 0 zero_params = Inr self
     \<and> shape \<lparr>shape = [0, 2, 4], elem = (\<lambda>_. 0::real)\<rparr> = [0, 2, nat 4]
     \<and> MultiHeadAttentionLayer_forward self \<lparr>shape = [0, 2, 4], elem = (\<lambda>_. 0)\<rparr>
            \<lparr>shape = [0, 2, 4], elem = (\<lambda>_. 0)\<rparr> \<lparr>shape = [0, 2, 4], elem = (\<lambda>_. 0)\<rparr> None
         = Inl RuntimeError"
proof -
  obtain self where i: "MultiHeadAttentionLayer_init 4 2 0 zero_params = Inr self"
    using mha_init_ok[of 4 2 0 zero_params] by auto
  have "MultiHeadAttentionLayer_forward self \<lparr>shape = [0, 2, 4], elem = (\<lambda>_. 0)\<rparr>
            \<lparr>shape = [0, 2, 4], elem = (\<lambda>_. 0)\<rparr> \<lparr>shape = [0, 2, 4], elem = (\<lambda>_. 0)\<rparr> None
         = Inl RuntimeError"
    by (rule forward_empty_raises[OF i, where bs = 0 and L = 2 and rest = "[4]"]) simp_all
  with i show ?thesis by auto
qed

section \<open>Keys of another batch size\<close>

text \<open>
  The views of the projected key and value only count elements. When key and value have
  another batch size than the query but as many rows in all, the views succeed and
  \<open>forward\<close> returns, although the key's sequence length differs from the query's.
\<close>

lemma view_shape_nonneg:
  assumes "\<forall>d\<in>set sizes. 0 \<le> d" "prod_list (map nat sizes) = numel t"
  shows "\<exists>v. view sizes t = Inr v \<and> shape v = map nat sizes"
  using view_nonneg[OF assms] by simp

lemma forward_regrouped_keys:
  assumes init: "MultiHeadAttentionLayer_init hid_dim n_heads p ps = Inr self"
    and pos: "0 < n_heads" "0 < hid_dim" "0 < bs"
    and q: "shape query = [bs, L, nat hid_dim]"
    and k: "shape key = [bk, Lk, nat hid_dim]"
    and v: "shape val = [bk, Lk, nat hid_dim]"
    and n: "bk * Lk = bs * L"
  shows "\<exists>out. MultiHeadAttentionLayer_forward self query key val None = Inr out
           \<and> shape out = [bs, L, nat hid_dim]"
proof -
  note f = mha_init_facts[OF init]
  define nh where "nh = nat n_heads"
  define dh where "dh = nat (hid_dim div n_heads)"
  define H where "H = nat hid_dim"
  note hp = heads_product[OF pos(1) f(3) f(2)]
  have H: "H = nh * dh" using hp(2) by (simp add: nh_def dh_def H_def)
  have Hpos: "0 < H" using pos(2) by (simp add: H_def)
  have ints: "mha_n_heads self = int nh" "mha_head_dim self = int dh" "mha_hid_dim self = int H"
    using pos(1) hp(1) f(3) by (simp_all add: f(6,7,8) nh_def dh_def H_def)
  have feat: "in_features (fc_q self) = H" "out_features (fc_q self) = H"
    "in_features (fc_k self) = H" "out_features (fc_k self) = H"
    "in_features (fc_v self) = H" "out_features (fc_v self) = H"
    "in_features (fc_o self) = H" "out_features (fc_o self) = H"
    by (simp_all add: f H_def)
  have s2: "shape2 query = Inr (bs, L)" by (simp add: q)
  obtain q0 where q0: "Linear_forward (fc_q self) query = Inr q0" "shape q0 = [bs, L, nh * dh]"
    using Linear_forward_3[of query bs L "fc_q self"] q by (auto simp: feat H_def H[symmetric])
  obtain k0 where k0: "Linear_forward (fc_k self) key = Inr k0" "shape k0 = [bk, Lk, nh * dh]"
    using Linear_forward_3[of key bk Lk "fc_k self"] k by (auto simp: feat H_def H[symmetric])
  obtain v0 where v0: "Linear_forward (fc_v self) val = Inr v0" "shape v0 = [bk, Lk, nh * dh]"
    using Linear_forward_3[of val bk Lk "fc_v self"] v by (auto simp: feat H_def H[symmetric])
  have nonneg: "\<forall>d\<in>set [int bs, int L, int nh, int dh]. 0 \<le> d" by simp
  have cnt: "bs * (L * (nh * dh)) = bk * (Lk * (nh * dh))"
    using n by (simp add: mult.assoc[symmetric])
  obtain q1 where q1: "view [int bs, int L, int nh, int dh] q0 = Inr q1"
      "shape q1 = [bs, L, nh, dh]"
    using view_split_heads[OF q0(2)] by auto
  obtain k1 where k1: "view [int bs, int L, int nh, int dh] k0 = Inr k1"
      "shape k1 = [bs, L, nh, dh]"
    using view_shape_nonneg[OF nonneg, of k0] cnt by (auto simp: numel_def k0(2))
  obtain v1 where v1: "view [int bs, int L, int nh, int dh] v0 = Inr v1"
      "shape v1 = [bs, L, nh, dh]"
    using view_shape_nonneg[OF nonneg, of v0] cnt by (auto simp: numel_def v0(2))
  obtain q2 where q2: "permute [0, 2, 1, 3] q1 = Inr q2" "shape q2 = [bs, nh, L, dh]"
    using permute_0213[OF q1(2)] by auto
  obtain k2 where k2: "permute [0, 2, 3, 1] k1 = Inr k2" "shape k2 = [bs, nh, dh, L]"
    using permute_0231[OF k1(2)] by auto
  obtain v2 where v2: "permute [0, 2, 1, 3] v1 = Inr v2" "shape v2 = [bs, nh, L, dh]"
    using permute_0213[OF v1(2)] by auto
  obtain qk where qk: "matmul q2 k2 = Inr qk" "shape qk = [bs, nh, L, L]"
    using matmul_4[OF q2(2) k2(2)] by auto
  define e0 where "e0 = pointwise (\<lambda>e. e / mha_scale self) qk"
  have e0: "shape e0 = [bs, nh, L, L]" by (simp add: e0_def pointwise_def qk(2))
  have en: "apply_mask self e0 None = Inr e0" by (simp add: apply_mask_def)
  define att where "att = Dropout_forward (mha_dropout self) (softmax e0)"
  have att: "shape att = [bs, nh, L, L]"
    unfolding att_def using softmax_4(1)[OF e0] by (simp add: Dropout_forward_def)
  obtain x1 where x1: "matmul att v2 = Inr x1" "shape x1 = [bs, nh, L, dh]"
    using matmul_4[OF att(1) v2(2)] by auto
  obtain x2 where x2: "permute [0, 2, 1, 3] x1 = Inr x2" "shape x2 = [bs, L, nh, dh]"
    using permute_0213[OF x1(2)] by auto
  obtain x3 where x3: "view [int bs, - 1, int H] x2 = Inr x3" "shape x3 = [bs, L, H]"
    using view_merge_heads[OF x2(2) pos(3) Hpos H] by auto
  obtain out where out: "Linear_forward (fc_o self) x3 = Inr out" "shape out = [bs, L, H]"
    using Linear_forward_3[of x3 bs L "fc_o self"] x3(2) by (auto simp: feat)
  have "MultiHeadAttentionLayer_forward self query key val None = Inr out"
    unfolding MultiHeadAttentionLayer_forward_def Let_def
    by (simp add: s2 q0(1) k0(1) v0(1) ints q1(1) k1(1) v1(1) q2(1) k2(1) v2(1) qk(1)
        e0_def[symmetric] en att_def[symmetric] x1(1) x2(1) x3(1) out(1)
        del: One_nat_def)
  with out(2) show ?thesis by (simp add: H_def)
qed

theorem forward_key_length_mismatch_counterexample:
  "\<exists>self out. MultiHeadAttentionLayer_init 4 2 0 zero_params = Inr self
     \<and> MultiHeadAttentionLayer_forward self \<lparr>shape = [2, 2, 4], elem = (\<lambda>_. 0)\<rparr>
          \<lparr>shape = [1, 4, 4], elem = (\<lambda>_. 0)\<rparr> \<lparr>shape = [1, 4, 4], elem = (\<lambda>_. 0)\<rparr> None
         = Inr out
     \<and> shape out = [2, 2, 4]
     \<and> shape \<lparr>shape = [2, 2, 4], elem = (\<lambda>_. 0::real)\<rparr> ! 1 = 2
     \<and> shape \<lparr>shape = [1, 4, 4], elem = (\<lambda>_. 0::real)\<rparr> ! 1 = 4"
proof -
  obtain self where i: "MultiHeadAttentionLayer_init 4 2 0 zero_params = Inr self"
    using mha_init_ok[of 4 2 0 zero_params] by auto
  have "\<exists>out. MultiHeadAttentionLayer_forward self \<lparr>shape = [2, 2, 4], elem = (\<lambda>_. 0)\<rparr>
          \<lparr>shape = [1, 4, 4], elem = (\<lambda>_. 0)\<rparr> \<lparr>shape = [1, 4, 4], elem = (\<lambda>_. 0)\<rparr> None
         = Inr out \<and> shape out = [2, 2, nat 4]"
    by (rule forward_regrouped_keys[OF i, where bs = 2 and L = 2 and bk = 1 and Lk = 4])
       simp_all
  with i show ?thesis by auto
qed

section \<open>The position-wise feed-forward layer\<close>

lemma pf_init_facts:
  assumes "PositionwiseFeedforwardLayer_init hid_dim pf_dim p ps = Inr self"
  shows "0 \<le> hid_dim" "0 \<le> pf_dim"
    "in_features (fc_1 self) = nat hid_dim" "out_features (fc_1 self) = nat pf_dim"
    "in_features (fc_2 self) = nat pf_dim" "out_features (fc_2 self) = nat hid_dim"
    "drop_p (pf_dropout self) = p"
  using assms
  by (auto simp: PositionwiseFeedforwardLayer_init_def Linear_init_def Dropout_init_def
      bnd_eq_Inr split: if_splits)

lemma pf_init_ok:
  assumes "0 \<le> hid_dim" "0 \<le> pf_dim" "0 \<le> p" "p \<le> 1"
  shows "\<exists>l. PositionwiseFeedforwardLayer_init hid_dim pf_dim p ps = Inr l"
  using assms
  by (simp add: PositionwiseFeedforwardLayer_init_def Linear_init_def Dropout_init_def)

text \<open>
  C6. For a layer constructed with dropout 0 and an input of shape
  \<open>[bs, seq_len, hid_dim]\<close>, \<open>forward\<close> returns a tensor of the same shape whose row at
  each position \<open>(b, i)\<close> is \<open>fc_2(relu(fc_1(x[b, i])))\<close>, computed from the input row at
  that position alone.
\<close>

theorem PositionwiseFeedforwardLayer_forward_positionwise:
  assumes init: "PositionwiseFeedforwardLayer_init hid_dim pf_dim 0 ps = Inr self"
    and x: "shape x = [bs, seq_len, nat hid_dim]"
  shows "\<exists>out. PositionwiseFeedforwardLayer_forward self x = Inr out
           \<and> shape out = shape x
           \<and> (\<forall>b i c. elem out [b, i, c]
                 = linear_image (fc_2 self)
                     (\<lambda>m. max 0 (linear_image (fc_1 self) (\<lambda>k. elem x [b, i, k]) m)) c)"
proof -
  note f = pf_init_facts[OF init]
  obtain h where h: "Linear_forward (fc_1 self) x = Inr h" "shape h = [bs, seq_len, nat pf_dim]"
      "\<And>i j c. elem h [i, j, c] = linear_image (fc_1 self) (\<lambda>m. elem x [i, j, m]) c"
    using Linear_forward_3[of x bs seq_len "fc_1 self"] x by (auto simp: f)
  define r where "r = Dropout_forward (pf_dropout self) (relu h)"
  have r: "shape r = [bs, seq_len, in_features (fc_2 self)]"
      "\<And>idx. elem r idx = max 0 (elem h idx)"
    by (simp_all add: r_def Dropout_forward_def f relu_def pointwise_def h(2))
  obtain out where out: "Linear_forward (fc_2 self) r = Inr out"
      "shape out = [bs, seq_len, nat hid_dim]"
      "\<And>i j c. elem out [i, j, c] = linear_image (fc_2 self) (\<lambda>m. elem r [i, j, m]) c"
    using Linear_forward_3[OF r(1)] by (auto simp: f)
  have "PositionwiseFeedforwardLayer_forward self x = Inr out"
    by (simp add: PositionwiseFeedforwardLayer_forward_def h(1) Let_def r_def[symmetric] out(1))
  then show ?thesis by (simp add: out(2,3) x r(2) h(3))
qed

theorem PositionwiseFeedforwardLayer_forward_positionwise_witness:
  "\<exists>self. PositionwiseFeedforwardLayer_init 4 8 0 zero_pf_params = Inr self
     \<and> shape \<lparr>shape = [2, 3, 4], elem = (\<lambda>_. 1::real)\<rparr> = [2, 3, nat 4]
     \<and> (\<exists>out. PositionwiseFeedforwardLayer_forward self \<lparr>shape = [2, 3, 4], elem = (\<lambda>_. 1)\<rparr> = Inr out
           \<and> shape out = [2, 3, 4]
           \<and> elem out [1, 2, 3]
                 = linear_image (fc_2 self)
                     (\<lambda>m. max 0 (linear_image (fc_1 self) (\<lambda>k. 1) m)) 3)"
proof -
  obtain self where i: "PositionwiseFeedforwardLayer_init 4 8 0 zero_pf_params = Inr self"
    using pf_init_ok[of 4 8 0 zero_pf_params] by auto
  show ?thesis
    using PositionwiseFeedforwardLayer_forward_positionwise[OF i,
        of "\<lparr>shape = [2, 3, 4], elem = (\<lambda>_. 1)\<rparr>" 2 3] i
    by auto
qed

section \<open>The decoder's inference step\<close>

text \<open>
  C10. On every decoder and for all inputs, \<open>inference_step\<close> raises AttributeError:
  its first step reads \<open>self.embedding\<close>, which no decoder has.
\<close>

theorem inference_step_raises:
  "TransformerDecoder_inference_step self inputs hidden = Inl AttributeError
   \<and> TransformerDecoder_attr self ''embedding'' = Inl AttributeError
   \<and> TransformerDecoder_attr self ''lstm'' = Inl AttributeError
   \<and> TransformerDecoder_attr self ''linear'' = Inl AttributeError"
proof -
  have e: "TransformerDecoder_attr self ''embedding'' = Inl AttributeError"
    by (simp add: TransformerDecoder_attr_def)
  have l: "TransformerDecoder_attr self ''lstm'' = Inl AttributeError"
    by (simp add: TransformerDecoder_attr_def)
  have n: "TransformerDecoder_attr self ''linear'' = Inl AttributeError"
    by (simp add: TransformerDecoder_attr_def)
  have "TransformerDecoder_inference_step self inputs hidden = Inl AttributeError"
    unfolding TransformerDecoder_inference_step_def e by simp
  with e l n show ?thesis by simp
qed

section \<open>The encoder's forward pass\<close>

lemma all_indices_2: "idx \<in> set (all_indices [a, b]) \<longleftrightarrow> (\<exists>i<a. \<exists>j<b. idx = [i, j])"
  by (auto simp: image_iff)

lemma Embedding_forward_2:
  assumes "shape x = [a, b]"
    and "\<forall>i<a. \<forall>j<b. 0 \<le> elem x [i, j] \<and> elem x [i, j] < int (num_embeddings e)"
  shows "\<exists>y. Embedding_forward e x = Inr y \<and> shape y = [a, b, embedding_dim e]
           \<and> (\<forall>i j d. elem y [i, j, d] = emb_weight e (nat (elem x [i, j])) d)"
proof -
  have "list_all (\<lambda>idx. 0 \<le> elem x idx \<and> elem x idx < int (num_embeddings e))
          (all_indices [a, b])"
    unfolding list_all_iff all_indices_2 using assms(2) by auto
  then show ?thesis
    by (simp add: Embedding_forward_def assms(1) del: all_indices.simps)
qed

lemma Embedding_forward_2_raises:
  assumes "shape x = [a, b]" "i < a" "j < b"
    and "\<not> (0 \<le> elem x [i, j] \<and> elem x [i, j] < int (num_embeddings e))"
  shows "Embedding_forward e x = Inl IndexError"
proof -
  have "[i, j] \<in> set (all_indices [a, b])" unfolding all_indices_2 using assms(2,3) by auto
  then have "\<not> list_all (\<lambda>idx. 0 \<le> elem x idx \<and> elem x idx < int (num_embeddings e))
          (all_indices [a, b])"
    unfolding list_all_iff using assms(4) by blast
  then show ?thesis
    by (simp add: Embedding_forward_def assms(1) del: all_indices.simps)
qed

lemma positions:
  "\<exists>t. repeat [int bs, 1] (arange L) = Inr t \<and> shape t = [bs, L]
      \<and> (\<forall>i j. j < L \<longrightarrow> elem t [i, j] = int j)"
  by (simp add: repeat_def arange_def Let_def)

lemma binop_same_3:
  assumes "shape a = [x, y, z]" "shape b = [x, y, z]"
  shows "\<exists>r. binop f a b = Inr r \<and> shape r = [x, y, z]
           \<and> (\<forall>i j k. i < x \<longrightarrow> j < y \<longrightarrow> k < z \<longrightarrow>
                  elem r [i, j, k] = f (elem a [i, j, k]) (elem b [i, j, k]))"
  using assms by (auto simp: binop_def broadcast_shapes_def bidx_def Let_def)

lemma encoder_init_facts:
  assumes "TransformerEncoder_init num_tokens hid_dim n_layers n_heads pf_dim p pad_index max_len ps
             = Inr self"
  shows "0 \<le> num_tokens" "0 \<le> hid_dim" "0 \<le> max_len"
    "num_embeddings (te_tok_embedding self) = nat num_tokens"
    "embedding_dim (te_tok_embedding self) = nat hid_dim"
    "num_embeddings (te_pos_embedding self) = nat max_len"
    "embedding_dim (te_pos_embedding self) = nat hid_dim"
    "te_pad_index self = pad_index"
  using assms
  by (auto simp: TransformerEncoder_init_def Embedding_init_def bnd_eq_Inr split: if_splits)

lemma encoder_embeddings:
  assumes init: "TransformerEncoder_init num_tokens hid_dim n_layers n_heads pf_dim p pad_index
                   max_len ps = Inr self"
    and x: "shape x = [bs, seq_len]"
    and tok: "\<forall>b<bs. \<forall>i<seq_len. 0 \<le> elem x [b, i] \<and> elem x [b, i] < num_tokens"
    and len: "int seq_len \<le> max_len"
  shows "\<exists>e indices pos_emb s.
           Embedding_forward (te_tok_embedding self) x = Inr e
         \<and> repeat [int bs, 1] (arange seq_len) = Inr indices
         \<and> Embedding_forward (te_pos_embedding self) indices = Inr pos_emb
         \<and> binop (+) (pointwise (\<lambda>v. v / te_scale self) e) pos_emb = Inr s"
proof -
  note f = encoder_init_facts[OF init]
  obtain e where e: "Embedding_forward (te_tok_embedding self) x = Inr e"
      "shape e = [bs, seq_len, nat hid_dim]"
    using Embedding_forward_2[OF x, of "te_tok_embedding self"] tok f(1) by (auto simp: f)
  obtain ind where ind: "repeat [int bs, 1] (arange seq_len) = Inr ind"
      "shape ind = [bs, seq_len]" "\<And>i j. j < seq_len \<Longrightarrow> elem ind [i, j] = int j"
    using positions[of bs seq_len] by auto
  obtain pe where pe: "Embedding_forward (te_pos_embedding self) ind = Inr pe"
      "shape pe = [bs, seq_len, nat hid_dim]"
    using Embedding_forward_2[OF ind(2), of "te_pos_embedding self"] ind(3) len f(3)
    by (auto simp: f)
  obtain s where "binop (+) (pointwise (\<lambda>v. v / te_scale self) e) pe = Inr s"
    using binop_same_3[of "pointwise (\<lambda>v. v / te_scale self) e" bs seq_len "nat hid_dim" pe "(+)"]
    by (auto simp: pointwise_def e(2) pe(2))
  with e(1) ind(1) pe(1) show ?thesis by blast
qed

text \<open>
  C1. \<open>TransformerEncoder.forward\<close> never returns: every call raises, and a call on a
  token tensor of shape \<open>[bs, seq_len]\<close> with tokens in \<open>[0, num_tokens)\<close> and
  \<open>seq_len \<le> max_len\<close> raises AttributeError, at the read of \<open>self.padding_index\<close>.
\<close>

theorem TransformerEncoder_forward_raises:
  assumes init: "TransformerEncoder_init num_tokens hid_dim n_layers n_heads pf_dim p pad_index
                   max_len ps = Inr self"
  shows "(\<exists>e. TransformerEncoder_forward self x = Inl e)
       \<and> (shape x = [bs, seq_len]
            \<and> (\<forall>b<bs. \<forall>i<seq_len. 0 \<le> elem x [b, i] \<and> elem x [b, i] < num_tokens)
            \<and> int seq_len \<le> max_len
          \<longrightarrow> TransformerEncoder_forward self x = Inl AttributeError)"
proof -
  have a: "TransformerEncoder_attr self ''padding_index'' = Inl AttributeError"
    by (simp add: TransformerEncoder_attr_def)
  have 1: "\<exists>e. TransformerEncoder_forward self x = Inl e"
    unfolding TransformerEncoder_forward_def Let_def a
    by (auto simp: bnd_def split: sum.splits)
  have 2: "TransformerEncoder_forward self x = Inl AttributeError"
    if x: "shape x = [bs, seq_len]"
      and tok: "\<forall>b<bs. \<forall>i<seq_len. 0 \<le> elem x [b, i] \<and> elem x [b, i] < num_tokens"
      and len: "int seq_len \<le> max_len"
  proof -
    from encoder_embeddings[OF init x tok len]
    obtain e indices pos_emb s where
      "Embedding_forward (te_tok_embedding self) x = Inr e"
      "repeat [int bs, 1] (arange seq_len) = Inr indices"
      "Embedding_forward (te_pos_embedding self) indices = Inr pos_emb"
      "binop (+) (pointwise (\<lambda>v. v / te_scale self) e) pos_emb = Inr s"
      by blast
    then show ?thesis
      unfolding TransformerEncoder_forward_def Let_def a by (simp add: x)
  qed
  from 1 2 show ?thesis by blast
qed

theorem TransformerEncoder_forward_raises_witness:
  "\<exists>self. TransformerEncoder_init 10 4 1 2 8 0 (Some 0) 16 zero_encoder_params = Inr self
     \<and> shape \<lparr>shape = [1, 3], elem = (\<lambda>idx. int (idx ! 1) + 1)\<rparr> = [1, 3]
     \<and> int 3 \<le> 16
     \<and> TransformerEncoder_forward self \<lparr>shape = [1, 3], elem = (\<lambda>idx. int (idx ! 1) + 1)\<rparr>
          = Inl AttributeError"
proof -
  have "\<exists>self. TransformerEncoder_init 10 4 1 2 8 0 (Some 0) 16 zero_encoder_params = Inr self"
    by (simp add: TransformerEncoder_init_def Embedding_init_def Dropout_init_def
        EncoderLayer_init_def MultiHeadAttentionLayer_init_def py_mod_def py_floordiv_def
        Linear_init_def LayerNorm_init_def PositionwiseFeedforwardLayer_init_def)
  then obtain self
    where i: "TransformerEncoder_init 10 4 1 2 8 0 (Some 0) 16 zero_encoder_params = Inr self" ..
  have "TransformerEncoder_forward self \<lparr>shape = [1, 3], elem = (\<lambda>idx. int (idx ! 1) + 1)\<rparr>
          = Inl AttributeError"
    using TransformerEncoder_forward_raises[OF i,
        of "\<lparr>shape = [1, 3], elem = (\<lambda>idx. int (idx ! 1) + 1)\<rparr>" 1 3]
    by auto
  with i show ?thesis by auto
qed

section \<open>The decoder without a padding index\<close>

lemma decoder_init_pad_index:
  assumes "TransformerDecoder_init num_tokens hid_dim n_layers n_heads pf_dim p pad_index max_len ps
             = Inr self"
  shows "td_pad_index self = pad_index"
  using assms by (auto simp: TransformerDecoder_init_def bnd_eq_Inr)

lemma isl_bnd: "isl m \<Longrightarrow> isl (bnd m f)"
  by (cases m) auto

text \<open>
  C8. For a decoder constructed with \<open>pad_index = None\<close>, every call of \<open>forward\<close>
  raises; with a token tensor of rank 2 or more and an encoder output of rank 3 or more
  the error is the TypeError of \<open>None * tensor\<close> in the padding step.
\<close>

theorem TransformerDecoder_forward_pad_index_None:
  assumes init: "TransformerDecoder_init num_tokens hid_dim n_layers n_heads pf_dim p None max_len ps
                   = Inr self"
  shows "(\<exists>e. TransformerDecoder_forward self x enc_out image_emb = Inl e)
       \<and> (2 \<le> length (shape x) \<and> 3 \<le> length (shape enc_out)
            \<longrightarrow> TransformerDecoder_forward self x enc_out image_emb = Inl TypeError)"
proof -
  have pad: "td_pad_index self = None" by (rule decoder_init_pad_index[OF init])
  have inputs: "\<exists>e. TransformerDecoder_inputs self x enc_out image_emb = Inl e"
    unfolding TransformerDecoder_inputs_def Let_def pad
    by (cases "shape2 x"; cases "shape13 enc_out") auto
  then have 1: "\<exists>e. TransformerDecoder_forward self x enc_out image_emb = Inl e"
    unfolding TransformerDecoder_forward_def by auto
  have 2: "TransformerDecoder_forward self x enc_out image_emb = Inl TypeError"
    if lx: "2 \<le> length (shape x)" and le: "3 \<le> length (shape enc_out)"
  proof -
    obtain bs l rest where x: "shape x = bs # l # rest"
      using lx by (cases "shape x"; cases "tl (shape x)") auto
    obtain a b c rest' where e: "shape enc_out = a # b # c # rest'"
      using le by (cases "shape enc_out"; cases "tl (shape enc_out)";
          cases "tl (tl (shape enc_out))") auto
    show ?thesis
      unfolding TransformerDecoder_forward_def TransformerDecoder_inputs_def Let_def pad
      by (simp add: x shape13_def e)
  qed
  from 1 2 show ?thesis by blast
qed

theorem TransformerDecoder_forward_pad_index_None_witness:
  "\<exists>self. TransformerDecoder_init 10 4 1 2 8 0 None 16 zero_decoder_params = Inr self
     \<and> TransformerDecoder_forward self \<lparr>shape = [1, 3], elem = (\<lambda>_. 1)\<rparr>
          \<lparr>shape = [1, 3, 4], elem = (\<lambda>_. 1)\<rparr> None = Inl TypeError"
proof -
  have "\<exists>self. TransformerDecoder_init 10 4 1 2 8 0 None 16 zero_decoder_params = Inr self"
    by (simp add: TransformerDecoder_init_def Embedding_init_def Dropout_init_def
        DecoderLayer_init_def MultiHeadAttentionLayer_init_def py_mod_def py_floordiv_def
        Linear_init_def LayerNorm_init_def PositionwiseFeedforwardLayer_init_def)
  then obtain self
    where i: "TransformerDecoder_init 10 4 1 2 8 0 None 16 zero_decoder_params = Inr self" ..
  show ?thesis
    using TransformerDecoder_forward_pad_index_None[OF i,
        of "\<lparr>shape = [1, 3], elem = (\<lambda>_. 1)\<rparr>" "\<lparr>shape = [1, 3, 4], elem = (\<lambda>_. 1)\<rparr>" None] i
    by auto
qed

section \<open>Shapes through the decoder layers\<close>

lemma shape_Dropout_forward [simp]: "shape (Dropout_forward d t) = shape t"
  by (simp add: Dropout_forward_def)

lemma mha_forward_shape:
  assumes init: "MultiHeadAttentionLayer_init hid_dim n_heads p ps = Inr self"
    and pos: "0 < n_heads" "0 < hid_dim" "0 < bs"
    and q: "shape query = [bs, L, nat hid_dim]"
    and k: "shape key = [bs, L, nat hid_dim]"
    and v: "shape val = [bs, L, nat hid_dim]"
    and m: "case msk of None \<Rightarrow> True | Some m \<Rightarrow> shape m = [bs, L, L]"
  shows "\<exists>out. MultiHeadAttentionLayer_forward self query key val msk = Inr out
           \<and> shape out = [bs, L, nat hid_dim]"
proof -
  note f = mha_init_facts[OF init]
  define nh where "nh = nat n_heads"
  define dh where "dh = nat (hid_dim div n_heads)"
  define H where "H = nat hid_dim"
  note hp = heads_product[OF pos(1) f(3) f(2)]
  have H: "H = nh * dh" using hp(2) by (simp add: nh_def dh_def H_def)
  have Hpos: "0 < H" using pos(2) by (simp add: H_def)
  have ints: "mha_n_heads self = int nh" "mha_head_dim self = int dh" "mha_hid_dim self = int H"
    using pos(1) hp(1) f(3) by (simp_all add: f(6,7,8) nh_def dh_def H_def)
  have feat: "in_features (fc_q self) = H" "out_features (fc_q self) = H"
    "in_features (fc_k self) = H" "out_features (fc_k self) = H"
    "in_features (fc_v self) = H" "out_features (fc_v self) = H"
    "in_features (fc_o self) = H" "out_features (fc_o self) = H"
    by (simp_all add: f H_def)
  have s2: "shape2 query = Inr (bs, L)" by (simp add: q)
  obtain q0 where q0: "Linear_forward (fc_q self) query = Inr q0" "shape q0 = [bs, L, nh * dh]"
    using Linear_forward_3[of query bs L "fc_q self"] q by (auto simp: feat H_def H[symmetric])
  obtain k0 where k0: "Linear_forward (fc_k self) key = Inr k0" "shape k0 = [bs, L, nh * dh]"
    using Linear_forward_3[of key bs L "fc_k self"] k by (auto simp: feat H_def H[symmetric])
  obtain v0 where v0: "Linear_forward (fc_v self) val = Inr v0" "shape v0 = [bs, L, nh * dh]"
    using Linear_forward_3[of val bs L "fc_v self"] v by (auto simp: feat H_def H[symmetric])
  obtain q1 where q1: "view [int bs, int L, int nh, int dh] q0 = Inr q1"
      "shape q1 = [bs, L, nh, dh]"
    using view_split_heads[OF q0(2)] by auto
  obtain k1 where k1: "view [int bs, int L, int nh, int dh] k0 = Inr k1"
      "shape k1 = [bs, L, nh, dh]"
    using view_split_heads[OF k0(2)] by auto
  obtain v1 where v1: "view [int bs, int L, int nh, int dh] v0 = Inr v1"
      "shape v1 = [bs, L, nh, dh]"
    using view_split_heads[OF v0(2)] by auto
  obtain q2 where q2: "permute [0, 2, 1, 3] q1 = Inr q2" "shape q2 = [bs, nh, L, dh]"
    using permute_0213[OF q1(2)] by auto
  obtain k2 where k2: "permute [0, 2, 3, 1] k1 = Inr k2" "shape k2 = [bs, nh, dh, L]"
    using permute_0231[OF k1(2)] by auto
  obtain v2 where v2: "permute [0, 2, 1, 3] v1 = Inr v2" "shape v2 = [bs, nh, L, dh]"
    using permute_0213[OF v1(2)] by auto
  obtain qk where qk: "matmul q2 k2 = Inr qk" "shape qk = [bs, nh, L, L]"
    using matmul_4[OF q2(2) k2(2)] by auto
  define e0 where "e0 = pointwise (\<lambda>e. e / mha_scale self) qk"
  have e0: "shape e0 = [bs, nh, L, L]" by (simp add: e0_def pointwise_def qk(2))
  obtain en where en: "apply_mask self e0 msk = Inr en" "shape en = [bs, nh, L, L]"
    using apply_mask_shape[OF e0(1) ints(1), of msk] m by auto
  define att where "att = Dropout_forward (mha_dropout self) (softmax en)"
  have att: "shape att = [bs, nh, L, L]"
    unfolding att_def using softmax_4(1)[OF en(2)] by simp
  obtain x1 where x1: "matmul att v2 = Inr x1" "shape x1 = [bs, nh, L, dh]"
    using matmul_4[OF att(1) v2(2)] by auto
  obtain x2 where x2: "permute [0, 2, 1, 3] x1 = Inr x2" "shape x2 = [bs, L, nh, dh]"
    using permute_0213[OF x1(2)] by auto
  obtain x3 where x3: "view [int bs, - 1, int H] x2 = Inr x3" "shape x3 = [bs, L, H]"
    using view_merge_heads[OF x2(2) pos(3) Hpos H] by auto
  obtain out where out: "Linear_forward (fc_o self) x3 = Inr out" "shape out = [bs, L, H]"
    using Linear_forward_3[of x3 bs L "fc_o self"] x3(2) by (auto simp: feat)
  have "MultiHeadAttentionLayer_forward self query key val msk = Inr out"
    unfolding MultiHeadAttentionLayer_forward_def Let_def
    by (simp add: s2 q0(1) k0(1) v0(1) ints q1(1) k1(1) v1(1) q2(1) k2(1) v2(1) qk(1)
        e0_def[symmetric] en(1) att_def[symmetric] x1(1) x2(1) x3(1) out(1)
        del: One_nat_def)
  with out(2) show ?thesis by (simp add: H_def)
qed

lemma LayerNorm_forward_3:
  assumes "shape x = [a, b, ln_dim l]"
  shows "\<exists>y. LayerNorm_forward l x = Inr y \<and> shape y = [a, b, ln_dim l]"
  using assms by (simp add: LayerNorm_forward_def)

lemma pf_forward_shape:
  assumes init: "PositionwiseFeedforwardLayer_init hid_dim pf_dim p ps = Inr self"
    and x: "shape x = [a, b, nat hid_dim]"
  shows "\<exists>out. PositionwiseFeedforwardLayer_forward self x = Inr out
           \<and> shape out = [a, b, nat hid_dim]"
proof -
  note f = pf_init_facts[OF init]
  obtain h where h: "Linear_forward (fc_1 self) x = Inr h" "shape h = [a, b, nat pf_dim]"
    using Linear_forward_3[of x a b "fc_1 self"] x by (auto simp: f)
  define r where "r = Dropout_forward (pf_dropout self) (relu h)"
  have r: "shape r = [a, b, in_features (fc_2 self)]"
    by (simp add: r_def f relu_def pointwise_def h(2))
  obtain out where out: "Linear_forward (fc_2 self) r = Inr out" "shape out = [a, b, nat hid_dim]"
    using Linear_forward_3[OF r(1)] by (auto simp: f)
  have "PositionwiseFeedforwardLayer_forward self x = Inr out"
    by (simp add: PositionwiseFeedforwardLayer_forward_def h(1) Let_def r_def[symmetric] out(1))
  with out(2) show ?thesis by simp
qed

lemma binop_same_shape_3:
  assumes "shape a = [x, y, z]" "shape b = [x, y, z]"
  shows "\<exists>r. binop f a b = Inr r \<and> shape r = [x, y, z]"
  using binop_same_3[OF assms] by blast

lemma decoder_layer_init_facts:
  assumes "DecoderLayer_init hid_dim n_heads pf_dim p ps = Inr self"
  shows "\<exists>ps1. MultiHeadAttentionLayer_init hid_dim n_heads p ps1 = Inr (dl_self_attn self)"
    "\<exists>ps2. MultiHeadAttentionLayer_init hid_dim n_heads p ps2 = Inr (dl_enc_attn self)"
    "\<exists>ps3. PositionwiseFeedforwardLayer_init hid_dim pf_dim p ps3 = Inr (dl_pf self)"
    "ln_dim (dl_self_attn_ln self) = nat hid_dim"
    "ln_dim (dl_enc_attn_ln self) = nat hid_dim"
    "ln_dim (dl_pf_ln self) = nat hid_dim"
  using assms
  by (auto simp: DecoderLayer_init_def LayerNorm_init_def bnd_eq_Inr split: if_splits)

lemma DecoderLayer_forward_shape:
  assumes init: "DecoderLayer_init hid_dim n_heads pf_dim p ps = Inr self"
    and pos: "0 < n_heads" "0 < hid_dim" "0 < bs"
    and x: "shape x = [bs, L, nat hid_dim]"
    and e: "shape enc_out = [bs, L, nat hid_dim]"
    and im: "shape input_mask = [bs, L, L]"
    and em: "shape enc_mask = [bs, L, L]"
  shows "\<exists>out. DecoderLayer_forward self x enc_out (Some input_mask) (Some enc_mask) = Inr out
           \<and> shape out = [bs, L, nat hid_dim]"
proof -
  note f = decoder_layer_init_facts[OF init]
  from f(1) obtain ps1
    where i1: "MultiHeadAttentionLayer_init hid_dim n_heads p ps1 = Inr (dl_self_attn self)" ..
  from f(2) obtain ps2
    where i2: "MultiHeadAttentionLayer_init hid_dim n_heads p ps2 = Inr (dl_enc_attn self)" ..
  from f(3) obtain ps3
    where i3: "PositionwiseFeedforwardLayer_init hid_dim pf_dim p ps3 = Inr (dl_pf self)" ..
  obtain a where a: "MultiHeadAttentionLayer_forward (dl_self_attn self) x x x (Some input_mask)
        = Inr a" "shape a = [bs, L, nat hid_dim]"
    using mha_forward_shape[OF i1 pos x x x, of "Some input_mask"] im by auto
  define ao where "ao = Dropout_forward (dl_dropout self) a"
  have ao: "shape ao = [bs, L, nat hid_dim]" by (simp add: ao_def a(2))
  obtain s1 where s1: "binop (+) x ao = Inr s1" "shape s1 = [bs, L, nat hid_dim]"
    using binop_same_shape_3[OF x ao] by blast
  obtain x1 where x1: "LayerNorm_forward (dl_self_attn_ln self) s1 = Inr x1"
      "shape x1 = [bs, L, nat hid_dim]"
    using LayerNorm_forward_3[of s1 bs L "dl_self_attn_ln self"] s1(2) by (auto simp: f)
  obtain a2 where a2: "MultiHeadAttentionLayer_forward (dl_enc_attn self) x1 enc_out enc_out
        (Some enc_mask) = Inr a2" "shape a2 = [bs, L, nat hid_dim]"
    using mha_forward_shape[OF i2 pos x1(2) e e, of "Some enc_mask"] em by auto
  define ao2 where "ao2 = Dropout_forward (dl_dropout self) a2"
  have ao2: "shape ao2 = [bs, L, nat hid_dim]" by (simp add: ao2_def a2(2))
  obtain s2 where s2: "binop (+) x1 ao2 = Inr s2" "shape s2 = [bs, L, nat hid_dim]"
    using binop_same_shape_3[OF x1(2) ao2] by blast
  obtain x2 where x2: "LayerNorm_forward (dl_enc_attn_ln self) s2 = Inr x2"
      "shape x2 = [bs, L, nat hid_dim]"
    using LayerNorm_forward_3[of s2 bs L "dl_enc_attn_ln self"] s2(2) by (auto simp: f)
  obtain ff where ff: "PositionwiseFeedforwardLayer_forward (dl_pf self) x2 = Inr ff"
      "shape ff = [bs, L, nat hid_dim]"
    using pf_forward_shape[OF i3 x2(2)] by blast
  define fo where "fo = Dropout_forward (dl_dropout self) ff"
  have fo: "shape fo = [bs, L, nat hid_dim]" by (simp add: fo_def ff(2))
  obtain s3 where s3: "binop (+) x2 fo = Inr s3" "shape s3 = [bs, L, nat hid_dim]"
    using binop_same_shape_3[OF x2(2) fo] by blast
  obtain out where out: "LayerNorm_forward (dl_pf_ln self) s3 = Inr out"
      "shape out = [bs, L, nat hid_dim]"
    using LayerNorm_forward_3[of s3 bs L "dl_pf_ln self"] s3(2) by (auto simp: f)
  have "DecoderLayer_forward self x enc_out (Some input_mask) (Some enc_mask) = Inr out"
    unfolding DecoderLayer_forward_def Let_def
    by (simp add: a(1) ao_def[symmetric] s1(1) x1(1) a2(1) ao2_def[symmetric] s2(1) x2(1)
        ff(1) fo_def[symmetric] s3(1) out(1))
  with out(2) show ?thesis by simp
qed

lemma map_res_Inr:
  "map_res f xs = Inr ys \<Longrightarrow> y \<in> set ys \<Longrightarrow> \<exists>x\<in>set xs. f x = Inr y"
proof (induction xs arbitrary: ys)
  case Nil
  then show ?case by simp
next
  case (Cons a xs)
  then show ?case by (auto split: sum.splits)
qed

lemma map_res_ok:
  "(\<And>x. x \<in> set xs \<Longrightarrow> \<exists>y. f x = Inr y) \<Longrightarrow> \<exists>ys. map_res f xs = Inr ys \<and> length ys = length xs"
proof (induction xs)
  case Nil
  then show ?case by simp
next
  case (Cons a xs)
  then obtain y where y: "f a = Inr y" by auto
  from Cons obtain ys where "map_res f xs = Inr ys \<and> length ys = length xs" by auto
  with y show ?case by simp
qed

lemma fold_decoder_layers_shape:
  assumes layers: "\<And>l. l \<in> set layers \<Longrightarrow> \<exists>ps. DecoderLayer_init hid_dim n_heads pf_dim p ps = Inr l"
    and pos: "0 < n_heads" "0 < hid_dim" "0 < bs"
    and e: "shape enc_out = [bs, L, nat hid_dim]"
    and im: "shape input_mask = [bs, L, L]"
    and em: "shape enc_mask = [bs, L, L]"
    and x: "shape x = [bs, L, nat hid_dim]"
  shows "\<exists>out. fold_res (\<lambda>x1 layer. DecoderLayer_forward layer x1 enc_out
                    (Some input_mask) (Some enc_mask)) x layers = Inr out
           \<and> shape out = [bs, L, nat hid_dim]"
  using layers x
proof (induction layers arbitrary: x)
  case Nil
  then show ?case by simp
next
  case (Cons l ls)
  from Cons.prems(1)[of l] obtain ps
    where i: "DecoderLayer_init hid_dim n_heads pf_dim p ps = Inr l" by auto
  from DecoderLayer_forward_shape[OF i pos Cons.prems(2) e im em]
  obtain y where y: "DecoderLayer_forward l x enc_out (Some input_mask) (Some enc_mask) = Inr y"
      "shape y = [bs, L, nat hid_dim]" by blast
  from Cons.IH[OF _ y(2)] Cons.prems(1)
  obtain out where "fold_res (\<lambda>x1 layer. DecoderLayer_forward layer x1 enc_out
                    (Some input_mask) (Some enc_mask)) y ls = Inr out"
      "shape out = [bs, L, nat hid_dim]" by auto
  with y(1) show ?case by simp
qed

section \<open>The decoder's inputs\<close>

lemma cat1_2:
  assumes "shape a = [n, p]" "shape b = [n, q]"
  shows "\<exists>c. cat1 a b = Inr c \<and> shape c = [n, p + q]
           \<and> (\<forall>i j. elem c [i, j] = (if j < p then elem a [i, j] else elem b [i, j - p]))"
  using assms by (simp add: cat1_def)

lemma cat1_3:
  assumes "shape a = [n, p, d]" "shape b = [n, q, d]"
  shows "\<exists>c. cat1 a b = Inr c \<and> shape c = [n, p + q, d]
           \<and> (\<forall>i j k. elem c [i, j, k]
                  = (if j < p then elem a [i, j, k] else elem b [i, j - p, k]))"
  using assms by (simp add: cat1_def)

lemma get_pad_mask_shape:
  assumes "shape query = [bs, ql]" "shape key = [bs, kl]"
    and "- 9223372036854775808 \<le> pad" "pad < 18446744073709551616"
  shows "\<exists>m. get_pad_mask query key (Some pad) = Inr m \<and> shape m = [bs, ql, kl]"
proof -
  have r: "\<not> (pad < - 9223372036854775808 \<or> 18446744073709551616 \<le> pad)"
    using assms(3,4) by simp
  show ?thesis
    using assms(1,2)
    by (auto simp: get_pad_mask_def eq_scalar_def r unsqueeze_def expand_def Let_def)
qed

lemma get_autoregressive_mask_shape:
  assumes "shape s = [bs, l]"
  shows "\<exists>m. get_autoregressive_mask s = Inr m \<and> shape m = [bs, l, l]"
  using assms
  by (auto simp: get_autoregressive_mask_def triu_def ones_def to_bool_def Let_def)

lemma unsqueeze_1_2:
  assumes "shape t = [a, b]"
  shows "\<exists>u. unsqueeze 1 t = Inr u \<and> shape u = [a, 1, b]
           \<and> (\<forall>i j k. elem u [i, j, k] = elem t [i, k])"
  using assms by (simp add: unsqueeze_def)

lemma decoder_init_facts:
  assumes "TransformerDecoder_init num_tokens hid_dim n_layers n_heads pf_dim p pad_index max_len ps
             = Inr self"
  shows "0 \<le> num_tokens" "0 \<le> hid_dim" "0 \<le> max_len"
    "num_embeddings (td_tok_embedding self) = nat num_tokens"
    "embedding_dim (td_tok_embedding self) = nat hid_dim"
    "num_embeddings (td_pos_embedding self) = nat max_len"
    "embedding_dim (td_pos_embedding self) = nat hid_dim"
    "td_pad_index self = pad_index"
    "drop_p (td_dropout self) = p"
    "in_features (td_classifier self) = nat hid_dim"
    "out_features (td_classifier self) = nat num_tokens"
    "td_scale self = sqrt (real_of_int hid_dim)"
    "\<And>l. l \<in> set (td_layers self) \<Longrightarrow>
        \<exists>ps1. DecoderLayer_init hid_dim n_heads pf_dim p ps1 = Inr l"
    "num_tokens < 9223372036854775808"
  using assms
  by (auto simp: TransformerDecoder_init_def Embedding_init_def Dropout_init_def Linear_init_def
      bnd_eq_Inr split: if_splits dest!: map_res_Inr)

lemma decoder_inputs_image:
  assumes init: "TransformerDecoder_init num_tokens hid_dim n_layers n_heads pf_dim p (Some pad)
                   max_len ps = Inr self"
    and x: "shape x = [bs, L]"
    and tok: "\<forall>b<bs. \<forall>i<L. 0 \<le> elem x [b, i] \<and> elem x [b, i] < num_tokens"
    and pad: "0 \<le> pad" "pad < num_tokens"
    and e: "shape enc_out = [bs, E, nat hid_dim]"
    and ie: "shape ie = [bs, nat hid_dim]"
    and len: "int (max (L + 1) E) \<le> max_len"
  shows "\<exists>emb enc1 im em.
           TransformerDecoder_inputs self x enc_out (Some ie) = Inr (emb, enc1, im, em)
         \<and> shape emb = [bs, max (L + 1) E, nat hid_dim]
         \<and> shape enc1 = [bs, max (L + 1) E, nat hid_dim]
         \<and> shape im = [bs, max (L + 1) E, max (L + 1) E]
         \<and> shape em = [bs, max (L + 1) E, max (L + 1) E]
         \<and> (p = 0 \<longrightarrow> (\<forall>b<bs. \<forall>c<nat hid_dim.
               elem emb [b, 0, c]
                 = elem ie [b, c] / td_scale self + emb_weight (td_pos_embedding self) 0 c
             \<and> (\<forall>i<L. elem emb [b, i + 1, c]
                 = emb_weight (td_tok_embedding self) (nat (elem x [b, i])) c / td_scale self
                   + emb_weight (td_pos_embedding self) (i + 1) c)))"
proof -
  note f = decoder_init_facts[OF init]
  have padr: "- 9223372036854775808 \<le> pad" "pad < 18446744073709551616"
    using pad f(14) by simp_all
  define H where "H = nat hid_dim"
  define S where "S = max (L + 1) E"
  have S: "L + 1 \<le> S" "E \<le> S" "L + (S - (L + 1)) + 1 = S" "E + (S - E) = S"
    by (simp_all add: S_def)
  have s2: "shape2 x = Inr (bs, L)" by (simp add: x)
  have s13: "shape13 enc_out = Inr (E, H)" by (simp add: shape13_def e H_def)
  have ifc: "(if Some ie \<noteq> None then L + 1 else L) = L + 1" by simp
  define padt where
    "padt = pointwise (\<lambda>v. pad * v) (real_to_long (ones [bs, S - (L + 1)]))"
  have padt: "shape padt = [bs, S - (L + 1)]" "\<And>idx. elem padt idx = pad"
    by (simp_all add: padt_def pointwise_def real_to_long_def ones_def)
  obtain x1 where x1: "cat1 x padt = Inr x1" "shape x1 = [bs, L + (S - (L + 1))]"
      "\<And>i j. elem x1 [i, j] = (if j < L then elem x [i, j] else pad)"
    using cat1_2[OF x padt(1)] by (auto simp: padt(2))
  obtain enc1 where enc1: "cat1 enc_out (zeros [bs, S - E, H]) = Inr enc1"
      "shape enc1 = [bs, S, H]"
    using cat1_3[of enc_out bs E H "zeros [bs, S - E, H]" "S - E"] e S(2)
    by (auto simp: zeros_def H_def)
  have rng: "\<forall>i<bs. \<forall>j<L + (S - (L + 1)).
      0 \<le> elem x1 [i, j] \<and> elem x1 [i, j] < int (num_embeddings (td_tok_embedding self))"
    using tok pad f(1) by (auto simp: x1(3) f(4))
  obtain e0 where e0: "Embedding_forward (td_tok_embedding self) x1 = Inr e0"
      "shape e0 = [bs, L + (S - (L + 1)), H]"
      "\<And>i j d. elem e0 [i, j, d] = emb_weight (td_tok_embedding self) (nat (elem x1 [i, j])) d"
    using Embedding_forward_2[OF x1(2) rng] by (auto simp: f H_def)
  obtain ie1 where ie1: "unsqueeze 1 ie = Inr ie1" "shape ie1 = [bs, 1, H]"
      "\<And>i j k. elem ie1 [i, j, k] = elem ie [i, k]"
    using unsqueeze_1_2[OF ie] by (auto simp: H_def)
  obtain e1 where e1: "cat1 ie1 e0 = Inr e1" "shape e1 = [bs, S, H]"
      "\<And>i j k. elem e1 [i, j, k] = (if j < 1 then elem ie [i, k] else elem e0 [i, j - 1, k])"
    using cat1_3[OF ie1(2) e0(2)] S(3) by (auto simp: ie1(3) add.commute)
  define te where "te = pointwise (\<lambda>v. v / td_scale self) e1"
  have te: "shape te = [bs, S, H]" "\<And>idx. elem te idx = elem e1 idx / td_scale self"
    by (simp_all add: te_def pointwise_def e1(2))
  obtain ind where ind: "repeat [int bs, 1] (arange S) = Inr ind"
      "shape ind = [bs, S]" "\<And>i j. j < S \<Longrightarrow> elem ind [i, j] = int j"
    using positions[of bs S] by auto
  have prng: "\<forall>i<bs. \<forall>j<S.
      0 \<le> elem ind [i, j] \<and> elem ind [i, j] < int (num_embeddings (td_pos_embedding self))"
    using len f(3) by (auto simp: ind(3) f(6) S_def)
  obtain pe where pe: "Embedding_forward (td_pos_embedding self) ind = Inr pe"
      "shape pe = [bs, S, H]"
      "\<And>i j d. elem pe [i, j, d] = emb_weight (td_pos_embedding self) (nat (elem ind [i, j])) d"
    using Embedding_forward_2[OF ind(2) prng] by (auto simp: f H_def)
  obtain s where s: "binop (+) te pe = Inr s" "shape s = [bs, S, H]"
      "\<And>i j k. i < bs \<Longrightarrow> j < S \<Longrightarrow> k < H \<Longrightarrow>
          elem s [i, j, k] = elem te [i, j, k] + elem pe [i, j, k]"
    using binop_same_3[OF te(1) pe(2), of "(+)"] by auto
  define emb where "emb = Dropout_forward (td_dropout self) s"
  have emb: "shape emb = [bs, S, H]" by (simp add: emb_def s(2))
  define o1 where "o1 = real_to_long (ones [bs, 1])"
  have o1: "shape o1 = [bs, 1]" by (simp add: o1_def real_to_long_def pointwise_def ones_def)
  obtain x2 where x2: "cat1 o1 x1 = Inr x2" "shape x2 = [bs, S]"
    using cat1_2[OF o1 x1(2)] S(3) by (auto simp: add.commute)
  obtain pm where pm: "get_pad_mask x2 x2 (Some pad) = Inr pm" "shape pm = [bs, S, S]"
    using get_pad_mask_shape[OF x2(2) x2(2) padr] by blast
  obtain am where am: "get_autoregressive_mask x2 = Inr am" "shape am = [bs, S, S]"
    using get_autoregressive_mask_shape[OF x2(2)] by blast
  obtain im where im: "binop (\<or>) pm am = Inr im" "shape im = [bs, S, S]"
    using binop_same_shape_3[OF pm(2) am(2)] by blast
  define eim where "eim = bool_to_long (all_last (pointwise (\<lambda>v. v \<noteq> 0) enc1))"
  have eim: "shape eim = [bs, S]"
    by (simp add: eim_def bool_to_long_def all_last_def pointwise_def enc1(2))
  obtain em where em: "get_pad_mask x2 eim (Some pad) = Inr em" "shape em = [bs, S, S]"
    using get_pad_mask_shape[OF x2(2) eim padr] by blast
  have res: "TransformerDecoder_inputs self x enc_out (Some ie) = Inr (emb, enc1, im, em)"
    unfolding TransformerDecoder_inputs_def s2 s13 bnd_Inr case_prod_conv Let_def ifc f(8)
      option.case S_def[symmetric] padt_def[symmetric] x1(1) enc1(1) e0(1) ie1(1) e1(1)
      te_def[symmetric] ind(1) pe(1) s(1) emb_def[symmetric] o1_def[symmetric] x2(1) pm(1)
      am(1) im(1) eim_def[symmetric] em(1)
    by (rule refl)
  have vals: "elem emb [b, 0, c]
                 = elem ie [b, c] / td_scale self + emb_weight (td_pos_embedding self) 0 c
             \<and> (\<forall>i<L. elem emb [b, i + 1, c]
                 = emb_weight (td_tok_embedding self) (nat (elem x [b, i])) c / td_scale self
                   + emb_weight (td_pos_embedding self) (i + 1) c)"
    if p0: "p = 0" and b: "b < bs" and c0: "c < nat hid_dim" for b c
  proof -
    have d: "emb = s" using p0 by (simp add: emb_def Dropout_forward_def f(9))
    have c: "c < H" using c0 by (simp add: H_def)
    have 0: "0 < S" using S(1) by simp
    have "elem s [b, 0, c] = elem ie [b, c] / td_scale self
        + emb_weight (td_pos_embedding self) 0 c"
      by (simp add: s(3)[OF b 0 c] te(2) e1(3) pe(3) ind(3)[OF 0])
    moreover have "elem s [b, i + 1, c]
        = emb_weight (td_tok_embedding self) (nat (elem x [b, i])) c / td_scale self
          + emb_weight (td_pos_embedding self) (i + 1) c" if i: "i < L" for i
    proof -
      have j: "Suc i < S" using i S(1) by simp
      have n: "nat (1 + int i) = Suc i" by simp
      show ?thesis
        using i by (simp add: s(3)[OF b j c] te(2) e1(3) e0(3) x1(3) pe(3) ind(3)[OF j] n)
    qed
    ultimately show ?thesis unfolding d by blast
  qed
  from res emb enc1(2) im(2) em(2) vals show ?thesis
    unfolding S_def H_def by blast
qed

lemma decoder_inputs_no_image:
  assumes init: "TransformerDecoder_init num_tokens hid_dim n_layers n_heads pf_dim p (Some pad)
                   max_len ps = Inr self"
    and x: "shape x = [bs, L]"
    and tok: "\<forall>b<bs. \<forall>i<L. 0 \<le> elem x [b, i] \<and> elem x [b, i] < num_tokens"
    and pad: "0 \<le> pad" "pad < num_tokens"
    and e: "shape enc_out = [bs, E, nat hid_dim]"
    and len: "int (max L E) \<le> max_len"
  shows "\<exists>emb enc1 im em.
           TransformerDecoder_inputs self x enc_out None = Inr (emb, enc1, im, em)
         \<and> shape emb = [bs, max L E, nat hid_dim]
         \<and> shape enc1 = [bs, max L E, nat hid_dim]
         \<and> shape im = [bs, max L E, max L E]
         \<and> shape em = [bs, max L E, max L E]"
proof -
  note f = decoder_init_facts[OF init]
  have padr: "- 9223372036854775808 \<le> pad" "pad < 18446744073709551616"
    using pad f(14) by simp_all
  define H where "H = nat hid_dim"
  define S where "S = max L E"
  have S: "L \<le> S" "E \<le> S" "L + (S - L) = S" "E + (S - E) = S"
    by (simp_all add: S_def)
  have s2: "shape2 x = Inr (bs, L)" by (simp add: x)
  have s13: "shape13 enc_out = Inr (E, H)" by (simp add: shape13_def e H_def)
  have ifc: "(if (None :: real tensor option) \<noteq> None then L + 1 else L) = L" by simp
  define padt where
    "padt = pointwise (\<lambda>v. pad * v) (real_to_long (ones [bs, S - L]))"
  have padt: "shape padt = [bs, S - L]" "\<And>idx. elem padt idx = pad"
    by (simp_all add: padt_def pointwise_def real_to_long_def ones_def)
  obtain x1 where x1: "cat1 x padt = Inr x1" "shape x1 = [bs, S]"
      "\<And>i j. elem x1 [i, j] = (if j < L then elem x [i, j] else pad)"
    using cat1_2[OF x padt(1)] S(3) by (auto simp: padt(2))
  obtain enc1 where enc1: "cat1 enc_out (zeros [bs, S - E, H]) = Inr enc1"
      "shape enc1 = [bs, S, H]"
    using cat1_3[of enc_out bs E H "zeros [bs, S - E, H]" "S - E"] e S(2)
    by (auto simp: zeros_def H_def)
  have rng: "\<forall>i<bs. \<forall>j<S.
      0 \<le> elem x1 [i, j] \<and> elem x1 [i, j] < int (num_embeddings (td_tok_embedding self))"
    using tok pad f(1) by (auto simp: x1(3) f(4))
  obtain e0 where e0: "Embedding_forward (td_tok_embedding self) x1 = Inr e0"
      "shape e0 = [bs, S, H]"
    using Embedding_forward_2[OF x1(2) rng] by (auto simp: f H_def)
  define te where "te = pointwise (\<lambda>v. v / td_scale self) e0"
  have te: "shape te = [bs, S, H]"
    by (simp_all add: te_def pointwise_def e0(2))
  obtain ind where ind: "repeat [int bs, 1] (arange S) = Inr ind"
      "shape ind = [bs, S]" "\<And>i j. j < S \<Longrightarrow> elem ind [i, j] = int j"
    using positions[of bs S] by auto
  have prng: "\<forall>i<bs. \<forall>j<S.
      0 \<le> elem ind [i, j] \<and> elem ind [i, j] < int (num_embeddings (td_pos_embedding self))"
    using len f(3) by (auto simp: ind(3) f(6) S_def)
  obtain pe where pe: "Embedding_forward (td_pos_embedding self) ind = Inr pe"
      "shape pe = [bs, S, H]"
    using Embedding_forward_2[OF ind(2) prng] by (auto simp: f H_def)
  obtain s where s: "binop (+) te pe = Inr s" "shape s = [bs, S, H]"
    using binop_same_shape_3[OF te(1) pe(2), of "(+)"] by auto
  define emb where "emb = Dropout_forward (td_dropout self) s"
  have emb: "shape emb = [bs, S, H]" by (simp add: emb_def s(2))
  obtain pm where pm: "get_pad_mask x1 x1 (Some pad) = Inr pm" "shape pm = [bs, S, S]"
    using get_pad_mask_shape[OF x1(2) x1(2) padr] by blast
  obtain am where am: "get_autoregressive_mask x1 = Inr am" "shape am = [bs, S, S]"
    using get_autoregressive_mask_shape[OF x1(2)] by blast
  obtain im where im: "binop (\<or>) pm am = Inr im" "shape im = [bs, S, S]"
    using binop_same_shape_3[OF pm(2) am(2)] by blast
  define eim where "eim = bool_to_long (all_last (pointwise (\<lambda>v. v \<noteq> 0) enc1))"
  have eim: "shape eim = [bs, S]"
    by (simp add: eim_def bool_to_long_def all_last_def pointwise_def enc1(2))
  obtain em where em: "get_pad_mask x1 eim (Some pad) = Inr em" "shape em = [bs, S, S]"
    using get_pad_mask_shape[OF x1(2) eim padr] by blast
  have res: "TransformerDecoder_inputs self x enc_out None = Inr (emb, enc1, im, em)"
    unfolding TransformerDecoder_inputs_def s2 s13 bnd_Inr case_prod_conv Let_def ifc f(8)
      option.case S_def[symmetric] padt_def[symmetric] x1(1) enc1(1) e0(1)
      te_def[symmetric] ind(1) pe(1) s(1) emb_def[symmetric] pm(1)
      am(1) im(1) eim_def[symmetric] em(1)
    by (rule refl)
  from res emb enc1(2) im(2) em(2) show ?thesis
    unfolding S_def H_def by blast
qed

lemma decoder_forward_shape:
  assumes init: "TransformerDecoder_init num_tokens hid_dim n_layers n_heads pf_dim p pad_index
                   max_len ps = Inr self"
    and pos: "0 < n_heads" "0 < hid_dim" "0 < bs"
    and inp: "TransformerDecoder_inputs self x enc_out image_emb = Inr (emb, enc1, im, em)"
    and sh: "shape emb = [bs, S, nat hid_dim]" "shape enc1 = [bs, S, nat hid_dim]"
      "shape im = [bs, S, S]" "shape em = [bs, S, S]"
  shows "\<exists>out. TransformerDecoder_forward self x enc_out image_emb = Inr out
           \<and> shape out = [bs, S, nat num_tokens]"
proof -
  note f = decoder_init_facts[OF init]
  from fold_decoder_layers_shape[of "td_layers self" hid_dim n_heads pf_dim p bs enc1 S im em emb,
      OF f(13) pos sh(2,3,4,1)]
  obtain y where y: "fold_res (\<lambda>x1 layer. DecoderLayer_forward layer x1 enc1 (Some im) (Some em))
                       emb (td_layers self) = Inr y"
      "shape y = [bs, S, nat hid_dim]" by blast
  obtain out where out: "Linear_forward (td_classifier self) y = Inr out"
      "shape out = [bs, S, nat num_tokens]"
    using Linear_forward_3[of y bs S "td_classifier self"] y(2) by (auto simp: f)
  have "TransformerDecoder_forward self x enc_out image_emb = Inr out"
    unfolding TransformerDecoder_forward_def by (simp add: inp y(1) out(1))
  with out(2) show ?thesis by simp
qed

lemma decoder_init_ok:
  "\<exists>self. TransformerDecoder_init 10 4 1 2 8 0 (Some 0) 16 zero_decoder_params = Inr self"
  by (simp add: TransformerDecoder_init_def Embedding_init_def Dropout_init_def
        DecoderLayer_init_def MultiHeadAttentionLayer_init_def py_mod_def py_floordiv_def
        Linear_init_def LayerNorm_init_def PositionwiseFeedforwardLayer_init_def)

lemma decoder_forward_image_shape:
  assumes init: "TransformerDecoder_init num_tokens hid_dim n_layers n_heads pf_dim p (Some pad)
                   max_len ps = Inr self"
    and pos: "0 < n_heads" "0 < hid_dim" "0 < bs"
    and x: "shape x = [bs, L]"
    and tok: "\<forall>b<bs. \<forall>i<L. 0 \<le> elem x [b, i] \<and> elem x [b, i] < num_tokens"
    and pad: "0 \<le> pad" "pad < num_tokens"
    and e: "shape enc_out = [bs, E, nat hid_dim]"
    and ie: "shape image_emb = [bs, nat hid_dim]"
    and len: "int (max (L + 1) E) \<le> max_len"
  shows "\<exists>out. TransformerDecoder_forward self x enc_out (Some image_emb) = Inr out
           \<and> shape out = [bs, max (L + 1) E, nat num_tokens]"
proof -
  from decoder_inputs_image[OF init x tok pad e ie len]
  obtain emb enc1 im em where
    inp: "TransformerDecoder_inputs self x enc_out (Some image_emb) = Inr (emb, enc1, im, em)"
    and sh: "shape emb = [bs, max (L + 1) E, nat hid_dim]"
      "shape enc1 = [bs, max (L + 1) E, nat hid_dim]"
      "shape im = [bs, max (L + 1) E, max (L + 1) E]"
      "shape em = [bs, max (L + 1) E, max (L + 1) E]"
    by blast
  from decoder_forward_shape[OF init pos inp sh] show ?thesis .
qed

lemma decoder_forward_no_image_shape:
  assumes init: "TransformerDecoder_init num_tokens hid_dim n_layers n_heads pf_dim p (Some pad)
                   max_len ps = Inr self"
    and pos: "0 < n_heads" "0 < hid_dim" "0 < bs"
    and x: "shape x = [bs, L]"
    and tok: "\<forall>b<bs. \<forall>i<L. 0 \<le> elem x [b, i] \<and> elem x [b, i] < num_tokens"
    and pad: "0 \<le> pad" "pad < num_tokens"
    and e: "shape enc_out = [bs, E, nat hid_dim]"
    and len: "int (max L E) \<le> max_len"
  shows "\<exists>out. TransformerDecoder_forward self x enc_out None = Inr out
           \<and> shape out = [bs, max L E, nat num_tokens]"
proof -
  from decoder_inputs_no_image[OF init x tok pad e len]
  obtain emb enc1 im em where
    inp: "TransformerDecoder_inputs self x enc_out None = Inr (emb, enc1, im, em)"
    and sh: "shape emb = [bs, max L E, nat hid_dim]"
      "shape enc1 = [bs, max L E, nat hid_dim]"
      "shape im = [bs, max L E, max L E]"
      "shape em = [bs, max L E, max L E]"
    by blast
  from decoder_forward_shape[OF init pos inp sh] show ?thesis .
qed

section \<open>The decoder with an image embedding\<close>

text \<open>
  C5. For a decoder with an integer \<open>pad_index\<close> that is a token, positive \<open>n_heads\<close>
  and \<open>hid_dim\<close>, a non-empty batch of token sequences of shape \<open>[bs, L]\<close> with tokens in
  range, an encoder output of shape \<open>[bs, E, hid_dim]\<close>, an image embedding of shape
  \<open>[bs, hid_dim]\<close> and \<open>max(L + 1, E) \<le> max_len\<close>: \<open>forward\<close> returns, with the image
  embedding, an output of sequence length \<open>max(L + 1, E)\<close> and, without it, of sequence
  length \<open>max(L, E)\<close>, so the image embedding adds exactly one time step if and only if
  \<open>E \<le> L\<close>. The layers run on the embedded sequence that the first part of \<open>forward\<close>
  returns. With dropout 0 that embedded sequence, passed to the first decoder layer, has
  the image embedding over the scale plus the positional embedding of position 0 at
  position 0, and at position \<open>i + 1\<close> the embedding of token \<open>x[b, i]\<close> over the scale
  plus the positional embedding of position \<open>i + 1\<close>.
\<close>

theorem TransformerDecoder_forward_image:
  assumes init: "TransformerDecoder_init num_tokens hid_dim n_layers n_heads pf_dim p (Some pad)
                   max_len ps = Inr self"
    and pos: "0 < n_heads" "0 < hid_dim" "0 < bs"
    and x: "shape x = [bs, L]"
    and tok: "\<forall>b<bs. \<forall>i<L. 0 \<le> elem x [b, i] \<and> elem x [b, i] < num_tokens"
    and pad: "0 \<le> pad" "pad < num_tokens"
    and e: "shape enc_out = [bs, E, nat hid_dim]"
    and ie: "shape image_emb = [bs, nat hid_dim]"
    and len: "int (max (L + 1) E) \<le> max_len"
  shows "\<exists>out out0 emb enc1 im em.
           TransformerDecoder_forward self x enc_out (Some image_emb) = Inr out
         \<and> shape out = [bs, max (L + 1) E, nat num_tokens]
         \<and> TransformerDecoder_forward self x enc_out None = Inr out0
         \<and> shape out0 = [bs, max L E, nat num_tokens]
         \<and> (shape out ! 1 = shape out0 ! 1 + 1 \<longleftrightarrow> E \<le> L)
         \<and> TransformerDecoder_inputs self x enc_out (Some image_emb) = Inr (emb, enc1, im, em)
         \<and> TransformerDecoder_forward self x enc_out (Some image_emb)
             = bnd (fold_res (\<lambda>x1 layer. DecoderLayer_forward layer x1 enc1 (Some im) (Some em))
                      emb (td_layers self))
                 (Linear_forward (td_classifier self))
         \<and> shape emb = [bs, max (L + 1) E, nat hid_dim]
         \<and> (p = 0 \<longrightarrow> (\<forall>b<bs. \<forall>c<nat hid_dim.
               elem emb [b, 0, c]
                 = elem image_emb [b, c] / td_scale self
                   + emb_weight (td_pos_embedding self) 0 c
             \<and> (\<forall>i<L. elem emb [b, i + 1, c]
                 = emb_weight (td_tok_embedding self) (nat (elem x [b, i])) c / td_scale self
                   + emb_weight (td_pos_embedding self) (i + 1) c)))"
proof -
  from decoder_inputs_image[OF init x tok pad e ie len]
  obtain emb enc1 im em where
    inp: "TransformerDecoder_inputs self x enc_out (Some image_emb) = Inr (emb, enc1, im, em)"
    and sh: "shape emb = [bs, max (L + 1) E, nat hid_dim]"
      "shape enc1 = [bs, max (L + 1) E, nat hid_dim]"
      "shape im = [bs, max (L + 1) E, max (L + 1) E]"
      "shape em = [bs, max (L + 1) E, max (L + 1) E]"
    and vals: "p = 0 \<longrightarrow> (\<forall>b<bs. \<forall>c<nat hid_dim.
               elem emb [b, 0, c]
                 = elem image_emb [b, c] / td_scale self
                   + emb_weight (td_pos_embedding self) 0 c
             \<and> (\<forall>i<L. elem emb [b, i + 1, c]
                 = emb_weight (td_tok_embedding self) (nat (elem x [b, i])) c / td_scale self
                   + emb_weight (td_pos_embedding self) (i + 1) c))"
    by blast
  from decoder_forward_shape[OF init pos inp sh]
  obtain out where out: "TransformerDecoder_forward self x enc_out (Some image_emb) = Inr out"
      "shape out = [bs, max (L + 1) E, nat num_tokens]" by blast
  have len0: "int (max L E) \<le> max_len" using len by simp
  from decoder_inputs_no_image[OF init x tok pad e len0]
  obtain emb0 enc0 im0 em0 where
    inp0: "TransformerDecoder_inputs self x enc_out None = Inr (emb0, enc0, im0, em0)"
    and sh0: "shape emb0 = [bs, max L E, nat hid_dim]"
      "shape enc0 = [bs, max L E, nat hid_dim]"
      "shape im0 = [bs, max L E, max L E]"
      "shape em0 = [bs, max L E, max L E]"
    by blast
  from decoder_forward_shape[OF init pos inp0 sh0]
  obtain out0 where out0: "TransformerDecoder_forward self x enc_out None = Inr out0"
      "shape out0 = [bs, max L E, nat num_tokens]" by blast
  have iff: "shape out ! 1 = shape out0 ! 1 + 1 \<longleftrightarrow> E \<le> L"
    by (auto simp: out(2) out0(2) max_def)
  have link: "TransformerDecoder_forward self x enc_out (Some image_emb)
      = bnd (fold_res (\<lambda>x1 layer. DecoderLayer_forward layer x1 enc1 (Some im) (Some em))
               emb (td_layers self))
          (Linear_forward (td_classifier self))"
    unfolding TransformerDecoder_forward_def by (simp add: inp)
  from out out0 iff inp link sh(1) vals show ?thesis by blast
qed

theorem TransformerDecoder_forward_image_witness:
  "\<exists>self. TransformerDecoder_init 10 4 1 2 8 0 (Some 0) 16 zero_decoder_params = Inr self
     \<and> shape \<lparr>shape = [1, 2], elem = (\<lambda>_. 1::int)\<rparr> = [1, 2]
     \<and> shape \<lparr>shape = [1, 2, 4], elem = (\<lambda>_. 1::real)\<rparr> = [1, 2, nat 4]
     \<and> shape \<lparr>shape = [1, 4], elem = (\<lambda>_. 1::real)\<rparr> = [1, nat 4]
     \<and> int (max (2 + 1) 2) \<le> 16
     \<and> (\<exists>out out0. TransformerDecoder_forward self \<lparr>shape = [1, 2], elem = (\<lambda>_. 1)\<rparr>
            \<lparr>shape = [1, 2, 4], elem = (\<lambda>_. 1)\<rparr> (Some \<lparr>shape = [1, 4], elem = (\<lambda>_. 1)\<rparr>) = Inr out
          \<and> shape out = [1, 3, 10]
          \<and> TransformerDecoder_forward self \<lparr>shape = [1, 2], elem = (\<lambda>_. 1)\<rparr>
            \<lparr>shape = [1, 2, 4], elem = (\<lambda>_. 1)\<rparr> None = Inr out0
          \<and> shape out0 = [1, 2, 10])"
proof -
  from decoder_init_ok obtain self
    where i: "TransformerDecoder_init 10 4 1 2 8 0 (Some 0) 16 zero_decoder_params = Inr self" ..
  have "\<exists>out out0 emb enc1 im em.
       TransformerDecoder_forward self \<lparr>shape = [1, 2], elem = (\<lambda>_. 1)\<rparr>
            \<lparr>shape = [1, 2, 4], elem = (\<lambda>_. 1)\<rparr> (Some \<lparr>shape = [1, 4], elem = (\<lambda>_. 1)\<rparr>) = Inr out
     \<and> shape out = [1, max (2 + 1) 2, nat 10]
     \<and> TransformerDecoder_forward self \<lparr>shape = [1, 2], elem = (\<lambda>_. 1)\<rparr>
            \<lparr>shape = [1, 2, 4], elem = (\<lambda>_. 1)\<rparr> None = Inr out0
     \<and> shape out0 = [1, max 2 2, nat 10]
     \<and> (shape out ! 1 = shape out0 ! 1 + 1 \<longleftrightarrow> (2::nat) \<le> 2)
     \<and> TransformerDecoder_inputs self \<lparr>shape = [1, 2], elem = (\<lambda>_. 1)\<rparr>
            \<lparr>shape = [1, 2, 4], elem = (\<lambda>_. 1)\<rparr> (Some \<lparr>shape = [1, 4], elem = (\<lambda>_. 1)\<rparr>)
          = Inr (emb, enc1, im, em)
     \<and> TransformerDecoder_forward self \<lparr>shape = [1, 2], elem = (\<lambda>_. 1)\<rparr>
            \<lparr>shape = [1, 2, 4], elem = (\<lambda>_. 1)\<rparr> (Some \<lparr>shape = [1, 4], elem = (\<lambda>_. 1)\<rparr>)
          = bnd (fold_res (\<lambda>x1 layer. DecoderLayer_forward layer x1 enc1 (Some im) (Some em))
                   emb (td_layers self))
              (Linear_forward (td_classifier self))
     \<and> shape emb = [1, max (2 + 1) 2, nat 4]
     \<and> ((0::real) = 0 \<longrightarrow> (\<forall>b<1. \<forall>c<nat 4.
               elem emb [b, 0, c]
                 = elem \<lparr>shape = [1, 4], elem = (\<lambda>_. 1::real)\<rparr> [b, c] / td_scale self
                   + emb_weight (td_pos_embedding self) 0 c
             \<and> (\<forall>i<2. elem emb [b, i + 1, c]
                 = emb_weight (td_tok_embedding self)
                     (nat (elem \<lparr>shape = [1, 2], elem = (\<lambda>_. 1::int)\<rparr> [b, i])) c / td_scale self
                   + emb_weight (td_pos_embedding self) (i + 1) c)))"
    by (rule TransformerDecoder_forward_image[OF i, where bs = 1 and L = 2 and E = 2]) simp_all
  then obtain out out0 where
    "TransformerDecoder_forward self \<lparr>shape = [1, 2], elem = (\<lambda>_. 1)\<rparr>
            \<lparr>shape = [1, 2, 4], elem = (\<lambda>_. 1)\<rparr> (Some \<lparr>shape = [1, 4], elem = (\<lambda>_. 1)\<rparr>) = Inr out"
    "shape out = [1, max (2 + 1) 2, nat 10]"
    "TransformerDecoder_forward self \<lparr>shape = [1, 2], elem = (\<lambda>_. 1)\<rparr>
            \<lparr>shape = [1, 2, 4], elem = (\<lambda>_. 1)\<rparr> None = Inr out0"
    "shape out0 = [1, max 2 2, nat 10]"
    by blast
  with i show ?thesis by auto
qed

text \<open>
  With an encoder output longer than the token sequence both calls pad to the encoder's
  length, and the image embedding adds no time step.
\<close>

theorem TransformerDecoder_forward_image_counterexample:
  "\<exists>self out out0.
       TransformerDecoder_init 10 4 1 2 8 0 (Some 0) 16 zero_decoder_params = Inr self
     \<and> TransformerDecoder_forward self \<lparr>shape = [1, 1], elem = (\<lambda>_. 1)\<rparr>
          \<lparr>shape = [1, 3, 4], elem = (\<lambda>_. 1)\<rparr> (Some \<lparr>shape = [1, 4], elem = (\<lambda>_. 1)\<rparr>) = Inr out
     \<and> TransformerDecoder_forward self \<lparr>shape = [1, 1], elem = (\<lambda>_. 1)\<rparr>
          \<lparr>shape = [1, 3, 4], elem = (\<lambda>_. 1)\<rparr> None = Inr out0
     \<and> shape out = [1, 3, 10] \<and> shape out0 = [1, 3, 10]"
proof -
  from decoder_init_ok obtain self
    where i: "TransformerDecoder_init 10 4 1 2 8 0 (Some 0) 16 zero_decoder_params = Inr self" ..
  have "\<exists>out. TransformerDecoder_forward self \<lparr>shape = [1, 1], elem = (\<lambda>_. 1)\<rparr>
          \<lparr>shape = [1, 3, 4], elem = (\<lambda>_. 1)\<rparr> (Some \<lparr>shape = [1, 4], elem = (\<lambda>_. 1)\<rparr>) = Inr out
        \<and> shape out = [1, max (1 + 1) 3, nat 10]"
    by (rule decoder_forward_image_shape[OF i, where bs = 1 and L = 1 and E = 3]) simp_all
  then obtain out where out:
    "TransformerDecoder_forward self \<lparr>shape = [1, 1], elem = (\<lambda>_. 1)\<rparr>
          \<lparr>shape = [1, 3, 4], elem = (\<lambda>_. 1)\<rparr> (Some \<lparr>shape = [1, 4], elem = (\<lambda>_. 1)\<rparr>) = Inr out"
    "shape out = [1, 3, 10]" by auto
  have "\<exists>out. TransformerDecoder_forward self \<lparr>shape = [1, 1], elem = (\<lambda>_. 1)\<rparr>
          \<lparr>shape = [1, 3, 4], elem = (\<lambda>_. 1)\<rparr> None = Inr out
        \<and> shape out = [1, max 1 3, nat 10]"
    by (rule decoder_forward_no_image_shape[OF i, where bs = 1 and L = 1 and E = 3]) simp_all
  then obtain out0 where out0:
    "TransformerDecoder_forward self \<lparr>shape = [1, 1], elem = (\<lambda>_. 1)\<rparr>
          \<lparr>shape = [1, 3, 4], elem = (\<lambda>_. 1)\<rparr> None = Inr out0"
    "shape out0 = [1, 3, 10]" by auto
  from i out out0 show ?thesis by blast
qed

end
